theory Spec2Isabelle
  imports Main
begin

section \<open>Python values, exceptions and console output\<close>

text \<open>
  The exceptions the modelled code raises or receives. Both are subclasses of Python's
  \<open>Exception\<close>, so an \<open>except Exception\<close> clause catches them: \<open>RuntimeError\<close> is raised by
  the interpreter guards and by asyncio when no event loop is running, \<open>LuaError\<close> is what
  the embedded engine raises for a failing script.
\<close>

datatype py_exception = RuntimeError string | LuaError string

fun str_of :: "py_exception \<Rightarrow> string" where
  "str_of (RuntimeError m) = m"
| "str_of (LuaError m) = m"

text \<open>Payloads (\<open>Any\<close> in the source) are opaque to the runtime.\<close>

type_synonym py_any = string

text \<open>
  A printed line: the format string of the source with the interpolated identifier kept
  as an argument. Time stamps (\<open>curr_time()\<close>) are left out of the model.
\<close>

datatype message =
    Msg string
  | MsgId string int
  | MsgStr string string
  | Callback_execution_error int py_exception
  | Traceback py_exception

section \<open>Data model of \<open>runtime.py\<close> and \<open>interpreter.py\<close>\<close>

record CallbackData =
  type :: string
  callback_id :: int
  data :: "py_any option"

text \<open>
  The Lua chunk handed to \<open>lua.execute\<close> (or the Lua function called), by the place in
  \<open>interpreter.py\<close> that builds it.
\<close>

datatype lua_chunk =
    Load_deferred string string bool
  | Load_and_run string string
  | Run_inline string
  | Main_file_hook string
  | Check_debug_main
  | Run_debug_main bool
  | Execute_callback int "py_any option"

text \<open>
  The engine is a black box. What one invocation of it does to the runtime is the
  sequence of host functions it calls (\<open>_PY.pythonTimer\<close>, \<open>_PY.pythonCancelTimer\<close>, the
  two entries \<open>initialize\<close> installs from the runtime) and how it ends: with an exception,
  or with a value of which only the truthiness matters.
\<close>

datatype host_call = pythonTimer int int | pythonCancelTimer int

record lua_run =
  calls :: "host_call list"
  result :: "py_exception + bool"

text \<open>
  An asyncio task running \<open>create_timer.timer_task\<close>: its closure variables, where the
  coroutine stands, and whether \<open>task.cancel()\<close> has been requested and not yet delivered.
\<close>

datatype task_status = Created | Sleeping | Done

record timer_task_state =
  timer_id :: int
  delay_ms :: int
  status :: task_status
  must_cancel :: bool

text \<open>
  The asyncio task running \<open>run_timer_callbacks_loop\<close>: at the top of the \<open>while\<close>,
  suspended in \<open>timer_semaphore.acquire()\<close>, suspended in \<open>callback_queue.get()\<close>, or done.
\<close>

datatype loop_pc = At_top | In_acquire | In_get | Finished

record loop_task =
  pc :: loop_pc
  loop_must_cancel :: bool

text \<open>Everything observable, in the order it happens.\<close>

datatype event =
    Stdout message
  | Put CallbackData
  | Release
  | Acquire
  | Get CallbackData
  | Lua_enter lua_chunk
  | Lua_exit "py_exception + bool"
  | Cancel_returned int bool

datatype LuaRuntime = LuaRuntime

record LuaInterpreter =
  lua :: "LuaRuntime option"
  debug :: bool
  output_buffer :: "string list"
  web_mode :: bool

text \<open>
  \<open>LuaAsyncRuntime\<close>, with the part of the event loop it drives: \<open>all_tasks\<close> are the
  timer tasks ever created with \<open>asyncio.create_task\<close> (a task handle is its index),
  \<open>scheduled\<close> the \<open>_queue_callback\<close> coroutines handed to \<open>asyncio.ensure_future\<close> and not
  yet run (the loop runs them first in, first out), \<open>trace\<close> the observable events so far.
\<close>

record LuaAsyncRuntime =
  interpreter :: LuaInterpreter
  timer_semaphore :: nat
  callback_task :: "loop_task option"
  task_states :: "string \<rightharpoonup> string"
  callback_queue :: "CallbackData list"
  timer_tasks :: "int \<rightharpoonup> nat"
  all_tasks :: "timer_task_state list"
  scheduled :: "CallbackData list"
  trace :: "event list"

definition init :: "LuaInterpreter \<Rightarrow> LuaAsyncRuntime" where
  "init interp =
     \<lparr>interpreter = interp, timer_semaphore = 0, callback_task = None,
      task_states = Map.empty, callback_queue = [], timer_tasks = Map.empty,
      all_tasks = [], scheduled = [], trace = []\<rparr>"

section \<open>Primitive effects\<close>

definition emit :: "event \<Rightarrow> LuaAsyncRuntime \<Rightarrow> LuaAsyncRuntime" where
  "emit e s = s\<lparr>trace := trace s @ [e]\<rparr>"

definition py_print :: "message \<Rightarrow> LuaAsyncRuntime \<Rightarrow> LuaAsyncRuntime" where
  "py_print m s = emit (Stdout m) s"

definition debug_print :: "message \<Rightarrow> LuaAsyncRuntime \<Rightarrow> LuaAsyncRuntime" where
  "debug_print m s = (if debug (interpreter s) then py_print m s else s)"

text \<open>
  \<open>callback_queue\<close> is an unbounded \<open>asyncio.Queue\<close>: \<open>put\<close> never waits.
  \<open>Semaphore.release\<close> adds one unit.
\<close>

definition put :: "CallbackData \<Rightarrow> LuaAsyncRuntime \<Rightarrow> LuaAsyncRuntime" where
  "put cd s = emit (Put cd) (s\<lparr>callback_queue := callback_queue s @ [cd]\<rparr>)"

definition release :: "LuaAsyncRuntime \<Rightarrow> LuaAsyncRuntime" where
  "release s = emit Release (s\<lparr>timer_semaphore := Suc (timer_semaphore s)\<rparr>)"

definition acquire :: "LuaAsyncRuntime \<Rightarrow> LuaAsyncRuntime" where
  "acquire s = emit Acquire (s\<lparr>timer_semaphore := timer_semaphore s - 1\<rparr>)"

section \<open>Timer manager (\<open>runtime.py\<close>, lines 53 to 118)\<close>

text \<open>
  \<open>asyncio.create_task\<close> and \<open>asyncio.get_running_loop\<close> raise \<open>RuntimeError\<close> in a thread
  that runs no event loop; the flag \<open>running_loop\<close> says whether the caller is on the event
  loop's thread. A Python exception leaves the effects before it in place, so every
  operation returns its result together with the state.
\<close>

definition create_timer ::
  "bool \<Rightarrow> int \<Rightarrow> int \<Rightarrow> LuaAsyncRuntime \<Rightarrow> (py_exception + nat) \<times> LuaAsyncRuntime" where
  "create_timer running_loop tid ms s =
     (if \<not> running_loop then (Inl (RuntimeError ''no running event loop''), s)
      else
        let task = length (all_tasks s)
        in (Inr task,
            s\<lparr>all_tasks := all_tasks s @
                   [\<lparr>timer_id = tid, delay_ms = ms, status = Created, must_cancel = False\<rparr>],
              timer_tasks := (timer_tasks s)(tid \<mapsto> task)\<rparr>))"

text \<open>
  \<open>_ensure_callback_loop_running\<close>: a new loop task is created when there is none or when
  the old one is done.
\<close>

definition ensure_callback_loop_running ::
  "bool \<Rightarrow> LuaAsyncRuntime \<Rightarrow> (py_exception + unit) \<times> LuaAsyncRuntime" where
  "ensure_callback_loop_running running_loop s =
     (if (case callback_task s of None \<Rightarrow> True | Some t \<Rightarrow> pc t = Finished) then
        if \<not> running_loop then (Inl (RuntimeError ''no running event loop''), s)
        else
          (Inr (),
           debug_print (Msg ''[DEBUG] Auto-started callback loop task'')
             (debug_print (Msg ''Auto-started callback loop as background task'')
               (s\<lparr>callback_task := Some \<lparr>pc = At_top, loop_must_cancel = False\<rparr>\<rparr>)))
      else (Inr (), debug_print (Msg ''[DEBUG] Callback loop already running'') s))"

definition python_timer ::
  "bool \<Rightarrow> int \<Rightarrow> int \<Rightarrow> LuaAsyncRuntime \<Rightarrow> (py_exception + nat) \<times> LuaAsyncRuntime" where
  "python_timer running_loop tid ms s =
     (case ensure_callback_loop_running running_loop s of
        (Inl e, s1) \<Rightarrow> (Inl e, s1)
      | (Inr _, s1) \<Rightarrow> create_timer running_loop tid ms s1)"

text \<open>\<open>task.done()\<close> and \<open>task.cancel()\<close> of a timer task.\<close>

definition task_done :: "nat \<Rightarrow> LuaAsyncRuntime \<Rightarrow> bool" where
  "task_done h s = (h < length (all_tasks s) \<and> status (all_tasks s ! h) = Done)"

definition task_cancel :: "nat \<Rightarrow> LuaAsyncRuntime \<Rightarrow> LuaAsyncRuntime" where
  "task_cancel h s =
     (if h < length (all_tasks s)
      then s\<lparr>all_tasks := (all_tasks s)[h := (all_tasks s ! h)\<lparr>must_cancel := True\<rparr>]\<rparr>
      else s)"

definition python_cancel_timer :: "int \<Rightarrow> LuaAsyncRuntime \<Rightarrow> bool \<times> LuaAsyncRuntime" where
  "python_cancel_timer tid s =
     (case timer_tasks s tid of
        Some task \<Rightarrow>
          let s1 = (if \<not> task_done task s
                    then debug_print (MsgId ''Python cancelled timer {timer_id}'' tid)
                           (task_cancel task s)
                    else s);
              s2 = s1\<lparr>timer_tasks := (timer_tasks s1)(tid := None)\<rparr>
          in (True, emit (Cancel_returned tid True) s2)
      | None \<Rightarrow>
          (False,
           emit (Cancel_returned tid False)
             (debug_print (MsgId ''Timer {timer_id} not found for cancellation'' tid) s)))"

text \<open>
  The body of \<open>timer_task\<close> after \<open>asyncio.sleep\<close> has returned (lines 62 to 74, then the
  \<open>finally\<close> of lines 85 to 88). Nothing in it waits, so the event loop runs it as one step.
  Neither the \<open>put\<close> on the unbounded queue nor the \<open>release\<close> raises, so the handler of
  lines 80 to 84 is not reached.
\<close>

definition timer_expired :: "int \<Rightarrow> LuaAsyncRuntime \<Rightarrow> LuaAsyncRuntime" where
  "timer_expired tid s =
     (if timer_tasks s tid = None then s
      else
        let s1 = put \<lparr>type = ''timer'', callback_id = tid, data = None\<rparr> s;
            s2 = release s1
        in s2\<lparr>timer_tasks := (timer_tasks s2)(tid := None)\<rparr>)"

text \<open>
  \<open>CancelledError\<close> raised at the \<open>sleep\<close>: the handler of lines 76 to 79, then the
  \<open>finally\<close>, which deletes whatever entry stands under the identifier.
\<close>

definition timer_cancelled :: "int \<Rightarrow> LuaAsyncRuntime \<Rightarrow> LuaAsyncRuntime" where
  "timer_cancelled tid s =
     (let s1 = debug_print (MsgId ''Timer {timer_id} task was cancelled'' tid) s
      in s1\<lparr>timer_tasks := (timer_tasks s1)(tid := None)\<rparr>)"

definition set_status :: "nat \<Rightarrow> task_status \<Rightarrow> LuaAsyncRuntime \<Rightarrow> LuaAsyncRuntime" where
  "set_status h st s = s\<lparr>all_tasks := (all_tasks s)[h := (all_tasks s ! h)\<lparr>status := st\<rparr>]\<rparr>"

text \<open>
  One resumption of timer task \<open>h\<close> by the event loop. A task cancelled before its first
  step never enters the coroutine body; a sleeping task is resumed either by the
  cancellation or by the end of its delay.
\<close>

definition timer_task :: "nat \<Rightarrow> LuaAsyncRuntime \<Rightarrow> LuaAsyncRuntime" where
  "timer_task h s =
     (if h < length (all_tasks s) then
        let t = all_tasks s ! h in
        (case status t of
           Created \<Rightarrow>
             if must_cancel t then set_status h Done s else set_status h Sleeping s
         | Sleeping \<Rightarrow>
             if must_cancel t then set_status h Done (timer_cancelled (timer_id t) s)
             else set_status h Done (timer_expired (timer_id t) s)
         | Done \<Rightarrow> s)
      else s)"

section \<open>The engine and the interpreter guards (\<open>interpreter.py\<close>)\<close>

fun host_calls :: "host_call list \<Rightarrow> LuaAsyncRuntime \<Rightarrow> LuaAsyncRuntime" where
  "host_calls [] s = s"
| "host_calls (pythonTimer tid ms # cs) s = host_calls cs (snd (python_timer True tid ms s))"
| "host_calls (pythonCancelTimer tid # cs) s = host_calls cs (snd (python_cancel_timer tid s))"

definition lua_execute ::
  "lua_run \<Rightarrow> lua_chunk \<Rightarrow> LuaAsyncRuntime \<Rightarrow> (py_exception + bool) \<times> LuaAsyncRuntime" where
  "lua_execute r c s =
     (result r, emit (Lua_exit (result r)) (host_calls (calls r) (emit (Lua_enter c) s)))"

definition returns_none ::
  "(py_exception + bool) \<times> LuaAsyncRuntime \<Rightarrow> (py_exception + unit) \<times> LuaAsyncRuntime" where
  "returns_none x = (case x of (Inl e, s) \<Rightarrow> (Inl e, s) | (Inr _, s) \<Rightarrow> (Inr (), s))"

definition execute_script ::
  "lua_run \<Rightarrow> string \<Rightarrow> string option \<Rightarrow> bool \<Rightarrow> bool \<Rightarrow> LuaAsyncRuntime
     \<Rightarrow> (py_exception + unit) \<times> LuaAsyncRuntime" where
  "execute_script r script source_name debugging dbg s =
     (if lua (interpreter s) = None
      then (Inl (RuntimeError ''Lua runtime not initialized. Call initialize() first.''), s)
      else
        let s1 = debug_print (Msg ''Executing Lua script...'') s in
        (case source_name of
           Some name \<Rightarrow>
             if name \<noteq> [] then
               let load_script = (if debugging then Load_deferred script name dbg
                                  else Load_and_run script name);
                   s2 = (if dbg
                         then py_print (MsgStr ''LUA: Loading script with source: {debug_source}'' name) s1
                         else s1)
               in returns_none (lua_execute r load_script s2)
             else returns_none (lua_execute r (Run_inline script) s1)
         | None \<Rightarrow> returns_none (lua_execute r (Run_inline script) s1)))"

definition execute_file ::
  "lua_run \<Rightarrow> string \<Rightarrow> bool \<Rightarrow> bool \<Rightarrow> LuaAsyncRuntime
     \<Rightarrow> (py_exception + unit) \<times> LuaAsyncRuntime" where
  "execute_file r filepath debugging dbg s =
     (if lua (interpreter s) = None
      then (Inl (RuntimeError ''Lua runtime not initialized. Call initialize() first.''), s)
      else
        let s1 = debug_print (MsgStr ''Executing file: {filepath}'' filepath) s in
        (case lua_execute r (Main_file_hook filepath) s1 of
           (Inl e, s2) \<Rightarrow>
             (Inl (RuntimeError (''main_file_hook failed for '' @ filepath @ '': '' @ str_of e)), s2)
         | (Inr _, s2) \<Rightarrow> (Inr (), s2)))"

definition execute_debug_main ::
  "lua_run \<Rightarrow> lua_run \<Rightarrow> bool \<Rightarrow> LuaAsyncRuntime \<Rightarrow> (py_exception + unit) \<times> LuaAsyncRuntime" where
  "execute_debug_main r_check r_main dbg s =
     (if lua (interpreter s) = None
      then (Inl (RuntimeError ''Lua runtime not initialized.''), s)
      else
        let s1 = (if dbg then py_print (Msg ''Checking for debug main function...'') s else s) in
        (case lua_execute r_check Check_debug_main s1 of
           (Inl e, s2) \<Rightarrow> (Inl e, s2)
         | (Inr has_debug_main, s2) \<Rightarrow>
             if \<not> has_debug_main then
               (Inr (),
                if dbg then py_print (Msg ''No debug main function found, skipping...'') s2 else s2)
             else
               let s3 = (if dbg then py_print (Msg ''Executing debug main function...'') s2 else s2)
               in returns_none (lua_execute r_main (Run_debug_main dbg) s3)))"

definition execute_lua_callback ::
  "lua_run \<Rightarrow> int \<Rightarrow> py_any option \<Rightarrow> LuaAsyncRuntime \<Rightarrow> (py_exception + unit) \<times> LuaAsyncRuntime" where
  "execute_lua_callback r cid d s =
     (if lua (interpreter s) = None
      then (Inl (RuntimeError ''Lua runtime not initialized.''), s)
      else returns_none (lua_execute r (Execute_callback cid d) s))"

section \<open>Submission, dispatch loop and shutdown (\<open>runtime.py\<close>, lines 142 to 367)\<close>

text \<open>\<open>_queue_callback\<close>: the enqueue, then one unit on the semaphore.\<close>

definition queue_callback :: "CallbackData \<Rightarrow> LuaAsyncRuntime \<Rightarrow> LuaAsyncRuntime" where
  "queue_callback callback_data s = release (put callback_data s)"

text \<open>
  \<open>queue_lua_callback\<close>. On the loop's thread the coroutine is handed to
  \<open>asyncio.ensure_future\<close>; elsewhere \<open>get_running_loop\<close> raises, the fallback
  \<open>asyncio.create_task\<close> raises as well, and the handler of line 361 only logs.
\<close>

definition queue_lua_callback ::
  "bool \<Rightarrow> int \<Rightarrow> py_any option \<Rightarrow> LuaAsyncRuntime \<Rightarrow> (py_exception + unit) \<times> LuaAsyncRuntime" where
  "queue_lua_callback running_loop cid result_data s =
     (let s0 = debug_print
                 (MsgId ''[DEBUG] queue_lua_callback called with callback_id={callback_id}'' cid) s
      in case ensure_callback_loop_running running_loop s0 of
           (Inl e, s1) \<Rightarrow> (Inl e, s1)
         | (Inr _, s1) \<Rightarrow>
             let callback_data = \<lparr>type = ''lua_callback'', callback_id = cid, data = result_data\<rparr>
             in if running_loop then
                  (Inr (),
                   debug_print (MsgId ''[DEBUG] Queued callback {callback_id} in event loop'' cid)
                     (s1\<lparr>scheduled := scheduled s1 @ [callback_data]\<rparr>))
                else
                  (Inr (),
                   debug_print (MsgId ''[DEBUG] Failed to queue callback {callback_id}: {e}'' cid)
                     (debug_print
                        (MsgId ''[DEBUG] No running loop, trying direct queue for callback {callback_id}'' cid)
                        s1)))"

text \<open>The \<open>try\<close> of lines 167 to 182: one event, routed by its type, failures caught.\<close>

definition on_failure :: "int \<Rightarrow> py_exception \<Rightarrow> LuaAsyncRuntime \<Rightarrow> LuaAsyncRuntime" where
  "on_failure cid e s = py_print (Traceback e) (py_print (Callback_execution_error cid e) s)"

definition dispatch :: "lua_run \<Rightarrow> CallbackData \<Rightarrow> LuaAsyncRuntime \<Rightarrow> LuaAsyncRuntime" where
  "dispatch r callback_data s =
     (if type callback_data = ''timer'' then
        (case execute_lua_callback r (callback_id callback_data) None s of
           (Inr _, s1) \<Rightarrow>
             debug_print (MsgId ''Timer {callback_id} executed successfully''
                            (callback_id callback_data)) s1
         | (Inl e, s1) \<Rightarrow> on_failure (callback_id callback_data) e s1)
      else if type callback_data = ''lua_callback'' then
        (case execute_lua_callback r (callback_id callback_data) (data callback_data) s of
           (Inr _, s1) \<Rightarrow>
             debug_print (MsgId ''Lua callback {callback_id} executed successfully''
                            (callback_id callback_data)) s1
         | (Inl e, s1) \<Rightarrow> on_failure (callback_id callback_data) e s1)
      else s)"

definition set_pc :: "loop_pc \<Rightarrow> LuaAsyncRuntime \<Rightarrow> LuaAsyncRuntime" where
  "set_pc p s = s\<lparr>callback_task := map_option (\<lambda>t. t\<lparr>pc := p\<rparr>) (callback_task s)\<rparr>"

text \<open>
  \<open>callback_queue.get()\<close> and the rest of the iteration: with an empty queue the loop
  task is suspended in \<open>get\<close>; otherwise the head is taken and dispatched, and the loop is
  back at the top of the \<open>while\<close>.
\<close>

definition get_and_dispatch :: "lua_run \<Rightarrow> LuaAsyncRuntime \<Rightarrow> LuaAsyncRuntime" where
  "get_and_dispatch r s =
     (case callback_queue s of
        [] \<Rightarrow> set_pc In_get s
      | callback_data # rest \<Rightarrow>
          set_pc At_top
            (dispatch r callback_data (emit (Get callback_data) (s\<lparr>callback_queue := rest\<rparr>))))"

definition after_acquire :: "bool \<Rightarrow> lua_run \<Rightarrow> LuaAsyncRuntime \<Rightarrow> LuaAsyncRuntime" where
  "after_acquire isLocked r s =
     (let s1 = (if isLocked then debug_print (Msg ''Callback loop awakened...'') s else s);
          s2 = s1\<lparr>task_states := (task_states s1)(''callback_loop'' \<mapsto> ''active'')\<rparr>
      in get_and_dispatch r s2)"

text \<open>
  One resumption of the loop task by the event loop, running one iteration of the
  \<open>while True\<close>. A pending cancellation is delivered as \<open>CancelledError\<close> at the point where
  the task stands, outside the \<open>try\<close>, and ends the task. The real task goes on to the
  next iteration without returning to the event loop while the semaphore has units;
  consecutive resumptions give exactly those runs.
\<close>

definition run_timer_callbacks_loop :: "lua_run \<Rightarrow> LuaAsyncRuntime \<Rightarrow> LuaAsyncRuntime" where
  "run_timer_callbacks_loop r s =
     (case callback_task s of
        None \<Rightarrow> s
      | Some t \<Rightarrow>
          if pc t = Finished then s
          else if loop_must_cancel t then set_pc Finished s
          else
            (case pc t of
               At_top \<Rightarrow>
                 let isLocked = (timer_semaphore s = 0);
                     s1 = (if isLocked then debug_print (Msg ''Callback loop suspended...'') s else s);
                     s2 = s1\<lparr>task_states := (task_states s1)(''callback_loop'' \<mapsto> ''suspended'')\<rparr>
                 in if isLocked then set_pc In_acquire s2
                    else after_acquire False r (acquire s2)
             | In_acquire \<Rightarrow>
                 if timer_semaphore s = 0 then s else after_acquire True r (acquire s)
             | In_get \<Rightarrow>
                 if callback_queue s = [] then s else get_and_dispatch r s
             | Finished \<Rightarrow> s))"

text \<open>\<open>stop\<close>: \<open>cancel()\<close> on the loop task, if there is one, and the final message.\<close>

definition stop :: "LuaAsyncRuntime \<Rightarrow> LuaAsyncRuntime" where
  "stop s =
     py_print (Msg ''Lua runtime stopped'')
       (case callback_task s of
          None \<Rightarrow> s
        | Some t \<Rightarrow>
            if pc t = Finished then s
            else s\<lparr>callback_task := Some (t\<lparr>loop_must_cancel := True\<rparr>)\<rparr>)"

section \<open>Executions\<close>

text \<open>
  What can happen next, on the event loop's thread: Python code calls a host function or
  runs a script in the engine, a producer submits a callback, the event loop resumes a
  timer task, the oldest scheduled \<open>_queue_callback\<close> or the dispatch loop, or the runtime
  is stopped. An execution is a list of such steps; the engine's behaviour at each
  invocation is part of the step.
\<close>

datatype action =
    Call host_call
  | Execute_script string lua_run
  | Queue_lua_callback int "py_any option"
  | Resume_timer nat
  | Resume_queue_callback
  | Resume_loop lua_run
  | Stop

fun step :: "action \<Rightarrow> LuaAsyncRuntime \<Rightarrow> LuaAsyncRuntime" where
  "step (Call c) s = host_calls [c] s"
| "step (Execute_script script r) s = snd (execute_script r script None False False s)"
| "step (Queue_lua_callback cid d) s = snd (queue_lua_callback True cid d s)"
| "step (Resume_timer h) s = timer_task h s"
| "step Resume_queue_callback s =
     (case scheduled s of
        [] \<Rightarrow> s
      | callback_data # rest \<Rightarrow> queue_callback callback_data (s\<lparr>scheduled := rest\<rparr>))"
| "step (Resume_loop r) s = run_timer_callbacks_loop r s"
| "step Stop s = stop s"

fun run :: "action list \<Rightarrow> LuaAsyncRuntime \<Rightarrow> LuaAsyncRuntime" where
  "run [] s = s"
| "run (a # as) s = run as (step a s)"

section \<open>Sample inputs\<close>

definition interp_none :: LuaInterpreter where
  "interp_none = \<lparr>lua = None, debug = True, output_buffer = [], web_mode = False\<rparr>"

definition interp_ready :: LuaInterpreter where
  "interp_ready = \<lparr>lua = Some LuaRuntime, debug = False, output_buffer = [], web_mode = False\<rparr>"

definition returns_true :: lua_run where
  "returns_true = \<lparr>calls = [], result = Inr True\<rparr>"

section \<open>Effects of the primitive operations on each field\<close>

lemma emit_fields [simp]:
  "interpreter (emit e s) = interpreter s"
  "timer_semaphore (emit e s) = timer_semaphore s"
  "callback_task (emit e s) = callback_task s"
  "task_states (emit e s) = task_states s"
  "callback_queue (emit e s) = callback_queue s"
  "timer_tasks (emit e s) = timer_tasks s"
  "all_tasks (emit e s) = all_tasks s"
  "scheduled (emit e s) = scheduled s"
  "trace (emit e s) = trace s @ [e]"
  by (simp_all add: emit_def)

lemma py_print_fields [simp]:
  "interpreter (py_print m s) = interpreter s"
  "timer_semaphore (py_print m s) = timer_semaphore s"
  "callback_task (py_print m s) = callback_task s"
  "task_states (py_print m s) = task_states s"
  "callback_queue (py_print m s) = callback_queue s"
  "timer_tasks (py_print m s) = timer_tasks s"
  "all_tasks (py_print m s) = all_tasks s"
  "scheduled (py_print m s) = scheduled s"
  "trace (py_print m s) = trace s @ [Stdout m]"
  by (simp_all add: py_print_def)

lemma debug_print_fields [simp]:
  "interpreter (debug_print m s) = interpreter s"
  "timer_semaphore (debug_print m s) = timer_semaphore s"
  "callback_task (debug_print m s) = callback_task s"
  "task_states (debug_print m s) = task_states s"
  "callback_queue (debug_print m s) = callback_queue s"
  "timer_tasks (debug_print m s) = timer_tasks s"
  "all_tasks (debug_print m s) = all_tasks s"
  "scheduled (debug_print m s) = scheduled s"
  "trace (debug_print m s) = trace s @ (if debug (interpreter s) then [Stdout m] else [])"
  by (simp_all add: debug_print_def)

lemma put_fields [simp]:
  "interpreter (put cd s) = interpreter s"
  "timer_semaphore (put cd s) = timer_semaphore s"
  "callback_task (put cd s) = callback_task s"
  "task_states (put cd s) = task_states s"
  "callback_queue (put cd s) = callback_queue s @ [cd]"
  "timer_tasks (put cd s) = timer_tasks s"
  "all_tasks (put cd s) = all_tasks s"
  "scheduled (put cd s) = scheduled s"
  "trace (put cd s) = trace s @ [Put cd]"
  by (simp_all add: put_def)

lemma release_fields [simp]:
  "interpreter (release s) = interpreter s"
  "timer_semaphore (release s) = Suc (timer_semaphore s)"
  "callback_task (release s) = callback_task s"
  "task_states (release s) = task_states s"
  "callback_queue (release s) = callback_queue s"
  "timer_tasks (release s) = timer_tasks s"
  "all_tasks (release s) = all_tasks s"
  "scheduled (release s) = scheduled s"
  "trace (release s) = trace s @ [Release]"
  by (simp_all add: release_def)

lemma acquire_fields [simp]:
  "interpreter (acquire s) = interpreter s"
  "timer_semaphore (acquire s) = timer_semaphore s - 1"
  "callback_task (acquire s) = callback_task s"
  "task_states (acquire s) = task_states s"
  "callback_queue (acquire s) = callback_queue s"
  "timer_tasks (acquire s) = timer_tasks s"
  "all_tasks (acquire s) = all_tasks s"
  "scheduled (acquire s) = scheduled s"
  "trace (acquire s) = trace s @ [Acquire]"
  by (simp_all add: acquire_def)

lemma set_pc_fields [simp]:
  "interpreter (set_pc p s) = interpreter s"
  "timer_semaphore (set_pc p s) = timer_semaphore s"
  "callback_task (set_pc p s) = map_option (\<lambda>t. t\<lparr>pc := p\<rparr>) (callback_task s)"
  "task_states (set_pc p s) = task_states s"
  "callback_queue (set_pc p s) = callback_queue s"
  "timer_tasks (set_pc p s) = timer_tasks s"
  "all_tasks (set_pc p s) = all_tasks s"
  "scheduled (set_pc p s) = scheduled s"
  "trace (set_pc p s) = trace s"
  by (simp_all add: set_pc_def)

lemma set_status_fields [simp]:
  "interpreter (set_status h st s) = interpreter s"
  "timer_semaphore (set_status h st s) = timer_semaphore s"
  "callback_task (set_status h st s) = callback_task s"
  "task_states (set_status h st s) = task_states s"
  "callback_queue (set_status h st s) = callback_queue s"
  "timer_tasks (set_status h st s) = timer_tasks s"
  "all_tasks (set_status h st s) = (all_tasks s)[h := (all_tasks s ! h)\<lparr>status := st\<rparr>]"
  "scheduled (set_status h st s) = scheduled s"
  "trace (set_status h st s) = trace s"
  by (simp_all add: set_status_def)

lemma task_cancel_fields [simp]:
  "interpreter (task_cancel h s) = interpreter s"
  "timer_semaphore (task_cancel h s) = timer_semaphore s"
  "callback_task (task_cancel h s) = callback_task s"
  "task_states (task_cancel h s) = task_states s"
  "callback_queue (task_cancel h s) = callback_queue s"
  "timer_tasks (task_cancel h s) = timer_tasks s"
  "all_tasks (task_cancel h s) = (all_tasks s)[h := (all_tasks s ! h)\<lparr>must_cancel := True\<rparr>]"
  "scheduled (task_cancel h s) = scheduled s"
  "trace (task_cancel h s) = trace s"
  by (auto simp: task_cancel_def not_less list_update_beyond)

lemma snd_returns_none [simp]: "snd (returns_none x) = snd x"
  by (simp add: returns_none_def split: prod.splits sum.splits)

lemma timer_expired_fields:
  "interpreter (timer_expired tid s) = interpreter s"
  "callback_task (timer_expired tid s) = callback_task s"
  "task_states (timer_expired tid s) = task_states s"
  "all_tasks (timer_expired tid s) = all_tasks s"
  "scheduled (timer_expired tid s) = scheduled s"
  "timer_tasks (timer_expired tid s) = (timer_tasks s)(tid := None)"
  "timer_semaphore (timer_expired tid s) =
     (if timer_tasks s tid = None then timer_semaphore s else Suc (timer_semaphore s))"
  "callback_queue (timer_expired tid s) =
     (if timer_tasks s tid = None then callback_queue s
      else callback_queue s @ [\<lparr>type = ''timer'', callback_id = tid, data = None\<rparr>])"
  "trace (timer_expired tid s) =
     (if timer_tasks s tid = None then trace s
      else trace s @ [Put \<lparr>type = ''timer'', callback_id = tid, data = None\<rparr>, Release])"
  by (auto simp: timer_expired_def Let_def)

lemma timer_cancelled_fields:
  "interpreter (timer_cancelled tid s) = interpreter s"
  "callback_task (timer_cancelled tid s) = callback_task s"
  "task_states (timer_cancelled tid s) = task_states s"
  "all_tasks (timer_cancelled tid s) = all_tasks s"
  "scheduled (timer_cancelled tid s) = scheduled s"
  "timer_tasks (timer_cancelled tid s) = (timer_tasks s)(tid := None)"
  "timer_semaphore (timer_cancelled tid s) = timer_semaphore s"
  "callback_queue (timer_cancelled tid s) = callback_queue s"
  "trace (timer_cancelled tid s) =
     trace s @ (if debug (interpreter s)
                then [Stdout (MsgId ''Timer {timer_id} task was cancelled'' tid)] else [])"
  by (simp_all add: timer_cancelled_def Let_def)

lemma python_cancel_timer_fields:
  "interpreter (snd (python_cancel_timer tid s)) = interpreter s"
  "timer_semaphore (snd (python_cancel_timer tid s)) = timer_semaphore s"
  "callback_task (snd (python_cancel_timer tid s)) = callback_task s"
  "task_states (snd (python_cancel_timer tid s)) = task_states s"
  "callback_queue (snd (python_cancel_timer tid s)) = callback_queue s"
  "scheduled (snd (python_cancel_timer tid s)) = scheduled s"
  "timer_tasks (snd (python_cancel_timer tid s)) = (timer_tasks s)(tid := None)"
  by (auto simp: python_cancel_timer_def Let_def split: option.splits)

lemma ensure_callback_loop_running_fields:
  "interpreter (snd (ensure_callback_loop_running b s)) = interpreter s"
  "timer_semaphore (snd (ensure_callback_loop_running b s)) = timer_semaphore s"
  "task_states (snd (ensure_callback_loop_running b s)) = task_states s"
  "callback_queue (snd (ensure_callback_loop_running b s)) = callback_queue s"
  "scheduled (snd (ensure_callback_loop_running b s)) = scheduled s"
  "timer_tasks (snd (ensure_callback_loop_running b s)) = timer_tasks s"
  "all_tasks (snd (ensure_callback_loop_running b s)) = all_tasks s"
  by (simp_all add: ensure_callback_loop_running_def split: option.splits)

lemma ensure_callback_loop_running_ok:
  "fst (ensure_callback_loop_running True s) = Inr ()"
  by (simp add: ensure_callback_loop_running_def)

lemma python_timer_unfold:
  "python_timer True tid ms s =
     create_timer True tid ms (snd (ensure_callback_loop_running True s))"
  using ensure_callback_loop_running_ok [of s]
  by (cases "ensure_callback_loop_running True s") (simp add: python_timer_def)

lemma python_timer_fields:
  "interpreter (snd (python_timer True tid ms s)) = interpreter s"
  "timer_semaphore (snd (python_timer True tid ms s)) = timer_semaphore s"
  "task_states (snd (python_timer True tid ms s)) = task_states s"
  "callback_queue (snd (python_timer True tid ms s)) = callback_queue s"
  "scheduled (snd (python_timer True tid ms s)) = scheduled s"
  "timer_tasks (snd (python_timer True tid ms s)) = (timer_tasks s)(tid \<mapsto> length (all_tasks s))"
  "all_tasks (snd (python_timer True tid ms s)) =
     all_tasks s @ [\<lparr>timer_id = tid, delay_ms = ms, status = Created, must_cancel = False\<rparr>]"
  by (simp_all add: python_timer_unfold create_timer_def Let_def
        ensure_callback_loop_running_fields)

section \<open>The interpreter guards\<close>

text \<open>
  C10. On an interpreter whose \<open>initialize()\<close> has not run (\<open>self.lua\<close> is \<open>None\<close>),
  \<open>execute_script\<close>, \<open>execute_file\<close>, \<open>execute_debug_main\<close> and \<open>execute_lua_callback\<close> raise
  \<open>RuntimeError\<close>; the state after the call is the state before it, trace included, so
  nothing was printed and the engine was not entered.
\<close>

theorem uninitialized_interpreter_raises:
  assumes "lua (interpreter s) = None"
  shows "execute_script r script source_name debugging dbg s =
           (Inl (RuntimeError ''Lua runtime not initialized. Call initialize() first.''), s) \<and>
         execute_file r filepath debugging dbg s =
           (Inl (RuntimeError ''Lua runtime not initialized. Call initialize() first.''), s) \<and>
         execute_debug_main r_check r_main dbg s =
           (Inl (RuntimeError ''Lua runtime not initialized.''), s) \<and>
         execute_lua_callback r cid d s =
           (Inl (RuntimeError ''Lua runtime not initialized.''), s)"
  using assms
  by (simp add: execute_script_def execute_file_def execute_debug_main_def
        execute_lua_callback_def)

theorem uninitialized_interpreter_raises_witness:
  "lua (interpreter (init interp_none)) = None \<and>
   execute_script returns_true ''print(1)'' (Some ''main.lua'') False True (init interp_none) =
     (Inl (RuntimeError ''Lua runtime not initialized. Call initialize() first.''), init interp_none) \<and>
   execute_file returns_true ''main.lua'' False True (init interp_none) =
     (Inl (RuntimeError ''Lua runtime not initialized. Call initialize() first.''), init interp_none) \<and>
   execute_debug_main returns_true returns_true True (init interp_none) =
     (Inl (RuntimeError ''Lua runtime not initialized.''), init interp_none) \<and>
   execute_lua_callback returns_true 5 None (init interp_none) =
     (Inl (RuntimeError ''Lua runtime not initialized.''), init interp_none)"
proof -
  have h: "lua (interpreter (init interp_none)) = None"
    by (simp add: init_def interp_none_def)
  show ?thesis
    using h uninitialized_interpreter_raises [OF h, where r = returns_true
        and script = "''print(1)''" and source_name = "Some ''main.lua''" and debugging = False
        and dbg = True and filepath = "''main.lua''" and r_check = returns_true
        and r_main = returns_true and cid = 5 and d = None]
    by simp
qed

lemma host_calls_fields [simp]:
  "interpreter (host_calls cs s) = interpreter s"
  "timer_semaphore (host_calls cs s) = timer_semaphore s"
  "task_states (host_calls cs s) = task_states s"
  "callback_queue (host_calls cs s) = callback_queue s"
  "scheduled (host_calls cs s) = scheduled s"
  by (induction cs s rule: host_calls.induct)
     (simp_all add: python_timer_fields python_cancel_timer_fields)

lemma lua_execute_fields [simp]:
  "fst (lua_execute r c s) = result r"
  "interpreter (snd (lua_execute r c s)) = interpreter s"
  "timer_semaphore (snd (lua_execute r c s)) = timer_semaphore s"
  "task_states (snd (lua_execute r c s)) = task_states s"
  "callback_queue (snd (lua_execute r c s)) = callback_queue s"
  "scheduled (snd (lua_execute r c s)) = scheduled s"
  by (simp_all add: lua_execute_def)

lemma execute_lua_callback_fields [simp]:
  "interpreter (snd (execute_lua_callback r cid d s)) = interpreter s"
  "timer_semaphore (snd (execute_lua_callback r cid d s)) = timer_semaphore s"
  "task_states (snd (execute_lua_callback r cid d s)) = task_states s"
  "callback_queue (snd (execute_lua_callback r cid d s)) = callback_queue s"
  "scheduled (snd (execute_lua_callback r cid d s)) = scheduled s"
  by (simp_all add: execute_lua_callback_def)

lemma execute_script_fields [simp]:
  "interpreter (snd (execute_script r script src dbging dbg s)) = interpreter s"
  "timer_semaphore (snd (execute_script r script src dbging dbg s)) = timer_semaphore s"
  "task_states (snd (execute_script r script src dbging dbg s)) = task_states s"
  "callback_queue (snd (execute_script r script src dbging dbg s)) = callback_queue s"
  "scheduled (snd (execute_script r script src dbging dbg s)) = scheduled s"
  by (simp_all add: execute_script_def Let_def split: option.splits)

text \<open>
  \<open>dispatch\<close> in one equation: the engine is entered when the event's type is known and
  the interpreter is initialised.
\<close>

definition known_type :: "CallbackData \<Rightarrow> bool" where
  "known_type cd = (type cd = ''timer'' \<or> type cd = ''lua_callback'')"

definition callback_args :: "CallbackData \<Rightarrow> int \<times> py_any option" where
  "callback_args cd = (callback_id cd, if type cd = ''timer'' then None else data cd)"

lemma execute_lua_callback_result:
  assumes "execute_lua_callback r cid d s = (res, s1)"
  shows "interpreter s1 = interpreter s \<and> timer_semaphore s1 = timer_semaphore s \<and>
         task_states s1 = task_states s \<and> callback_queue s1 = callback_queue s \<and>
         scheduled s1 = scheduled s"
proof -
  have "s1 = snd (execute_lua_callback r cid d s)" using assms by simp
  then show ?thesis by simp
qed

lemma dispatch_fields [simp]:
  "interpreter (dispatch r cd s) = interpreter s"
  "timer_semaphore (dispatch r cd s) = timer_semaphore s"
  "task_states (dispatch r cd s) = task_states s"
  "callback_queue (dispatch r cd s) = callback_queue s"
  "scheduled (dispatch r cd s) = scheduled s"
  by (auto simp: dispatch_def on_failure_def split: prod.splits sum.splits
        dest!: execute_lua_callback_result)

section \<open>Evaluating the model on concrete inputs\<close>

lemmas model_defs =
  init_def interp_none_def interp_ready_def returns_true_def
  emit_def py_print_def debug_print_def put_def release_def acquire_def
  create_timer_def ensure_callback_loop_running_def python_timer_def
  task_done_def task_cancel_def python_cancel_timer_def
  timer_expired_def timer_cancelled_def set_status_def timer_task_def
  lua_execute_def returns_none_def execute_script_def execute_lua_callback_def
  queue_callback_def queue_lua_callback_def on_failure_def dispatch_def set_pc_def
  get_and_dispatch_def after_acquire_def run_timer_callbacks_loop_def stop_def Let_def

section \<open>Expiry of a timer\<close>

text \<open>
  C2. When the event loop resumes a sleeping timer task (its delay has expired): if no
  cancellation is pending and the identifier is still in \<open>timer_tasks\<close>, the identifier is
  removed, exactly one \<open>timer\<close> event carrying it is appended to the callback queue and the
  semaphore is released exactly once; if the identifier is no longer in \<open>timer_tasks\<close>, or
  a cancellation of the task is pending, the queue and the semaphore are left as they were
  and the trace gains no \<open>Put\<close> and no \<open>Release\<close> (at most the debug line of the
  cancellation handler).
\<close>

theorem timer_expiry_dispatch:
  assumes "h < length (all_tasks s)"
    and "status (all_tasks s ! h) = Sleeping"
    and "timer_id (all_tasks s ! h) = tid"
  shows "(\<not> must_cancel (all_tasks s ! h) \<and> timer_tasks s tid \<noteq> None \<longrightarrow>
            timer_tasks (timer_task h s) = (timer_tasks s)(tid := None) \<and>
            callback_queue (timer_task h s) =
              callback_queue s @ [\<lparr>type = ''timer'', callback_id = tid, data = None\<rparr>] \<and>
            timer_semaphore (timer_task h s) = Suc (timer_semaphore s) \<and>
            trace (timer_task h s) =
              trace s @ [Put \<lparr>type = ''timer'', callback_id = tid, data = None\<rparr>, Release]) \<and>
         (must_cancel (all_tasks s ! h) \<or> timer_tasks s tid = None \<longrightarrow>
            callback_queue (timer_task h s) = callback_queue s \<and>
            timer_semaphore (timer_task h s) = timer_semaphore s \<and>
            timer_tasks (timer_task h s) tid = None \<and>
            trace (timer_task h s) =
              trace s @ (if must_cancel (all_tasks s ! h) \<and> debug (interpreter s)
                         then [Stdout (MsgId ''Timer {timer_id} task was cancelled'' tid)]
                         else []))"
  using assms
  by (auto simp: timer_task_def Let_def timer_expired_fields timer_cancelled_fields)

definition sleeping_timer :: LuaAsyncRuntime where
  "sleeping_timer = run [Call (pythonTimer 1 10), Resume_timer 0] (init interp_ready)"

lemma sleeping_timer_eq:
  "sleeping_timer =
     \<lparr>interpreter = interp_ready, timer_semaphore = 0,
      callback_task = Some \<lparr>pc = At_top, loop_must_cancel = False\<rparr>,
      task_states = Map.empty, callback_queue = [], timer_tasks = [1 \<mapsto> 0],
      all_tasks = [\<lparr>timer_id = 1, delay_ms = 10, status = Sleeping, must_cancel = False\<rparr>],
      scheduled = [], trace = []\<rparr>"
  by (simp add: sleeping_timer_def model_defs)

theorem timer_expiry_dispatch_witness:
  "0 < length (all_tasks sleeping_timer) \<and>
   status (all_tasks sleeping_timer ! 0) = Sleeping \<and>
   timer_id (all_tasks sleeping_timer ! 0) = 1 \<and>
   \<not> must_cancel (all_tasks sleeping_timer ! 0) \<and>
   timer_tasks sleeping_timer 1 \<noteq> None \<and>
   timer_tasks (timer_task 0 sleeping_timer) = (timer_tasks sleeping_timer)(1 := None) \<and>
   callback_queue (timer_task 0 sleeping_timer) =
     [\<lparr>type = ''timer'', callback_id = 1, data = None\<rparr>] \<and>
   timer_semaphore (timer_task 0 sleeping_timer) = 1 \<and>
   trace (timer_task 0 sleeping_timer) =
     [Put \<lparr>type = ''timer'', callback_id = 1, data = None\<rparr>, Release]"
proof -
  have h: "0 < length (all_tasks sleeping_timer)"
      "status (all_tasks sleeping_timer ! 0) = Sleeping"
      "timer_id (all_tasks sleeping_timer ! 0) = 1"
    by (simp_all add: sleeping_timer_eq)
  have k: "\<not> must_cancel (all_tasks sleeping_timer ! 0)" "timer_tasks sleeping_timer 1 \<noteq> None"
      "callback_queue sleeping_timer = []" "timer_semaphore sleeping_timer = 0"
      "trace sleeping_timer = []"
    by (simp_all add: sleeping_timer_eq)
  show ?thesis
    using h k timer_expiry_dispatch [OF h] by simp
qed

section \<open>Creating a timer under an identifier that is live\<close>

text \<open>
  C9, as the code has it. \<open>create_timer\<close> and \<open>python_timer\<close> make no check for a duplicate:
  called on the event loop's thread with an identifier that is live, they raise nothing
  and print nothing about it, create a new task and return it, and store it under the
  identifier in place of the earlier entry. The earlier task is left as it was, still
  known to the event loop. \<open>timer_tasks\<close> being a dictionary, there is still one entry for
  the identifier.
\<close>

theorem duplicate_timer_replaces_entry:
  assumes "timer_tasks s tid = Some h"
  shows "fst (create_timer True tid ms s) = Inr (length (all_tasks s)) \<and>
         fst (python_timer True tid ms s) = Inr (length (all_tasks s)) \<and>
         timer_tasks (snd (python_timer True tid ms s)) = (timer_tasks s)(tid \<mapsto> length (all_tasks s)) \<and>
         all_tasks (snd (python_timer True tid ms s)) =
           all_tasks s @ [\<lparr>timer_id = tid, delay_ms = ms, status = Created, must_cancel = False\<rparr>] \<and>
         snd (create_timer True tid ms s) =
           s\<lparr>all_tasks := all_tasks s @
                 [\<lparr>timer_id = tid, delay_ms = ms, status = Created, must_cancel = False\<rparr>],
             timer_tasks := (timer_tasks s)(tid \<mapsto> length (all_tasks s))\<rparr>"
  by (simp add: python_timer_fields)
     (simp add: python_timer_unfold create_timer_def Let_def ensure_callback_loop_running_fields)

theorem duplicate_timer_replaces_entry_witness:
  "timer_tasks sleeping_timer 1 = Some 0 \<and>
   fst (create_timer True 1 20 sleeping_timer) = Inr 1 \<and>
   fst (python_timer True 1 20 sleeping_timer) = Inr 1 \<and>
   timer_tasks (snd (python_timer True 1 20 sleeping_timer)) 1 = Some 1 \<and>
   all_tasks (snd (python_timer True 1 20 sleeping_timer)) =
     [\<lparr>timer_id = 1, delay_ms = 10, status = Sleeping, must_cancel = False\<rparr>,
      \<lparr>timer_id = 1, delay_ms = 20, status = Created, must_cancel = False\<rparr>]"
proof -
  have h: "timer_tasks sleeping_timer 1 = Some 0" by (simp add: sleeping_timer_eq)
  have k: "all_tasks sleeping_timer =
      [\<lparr>timer_id = 1, delay_ms = 10, status = Sleeping, must_cancel = False\<rparr>]"
    by (simp add: sleeping_timer_eq)
  show ?thesis
    using h k duplicate_timer_replaces_entry [OF h, of 20] by simp
qed

theorem duplicate_timer_not_reported:
  "timer_tasks sleeping_timer 1 = Some 0 \<and>
   create_timer True 1 20 sleeping_timer =
     (Inr 1,
      sleeping_timer
        \<lparr>all_tasks :=
           [\<lparr>timer_id = 1, delay_ms = 10, status = Sleeping, must_cancel = False\<rparr>,
            \<lparr>timer_id = 1, delay_ms = 20, status = Created, must_cancel = False\<rparr>],
         timer_tasks := [1 \<mapsto> 1]\<rparr>) \<and>
   fst (python_timer True 1 20 sleeping_timer) = Inr 1 \<and>
   trace (snd (python_timer True 1 20 sleeping_timer)) = []"
  by (simp add: sleeping_timer_eq model_defs)

section \<open>What a trace records\<close>

text \<open>
  The events enqueued, the events dequeued and the callbacks for which the engine was
  entered, each in the order of the trace.
\<close>

definition puts :: "event list \<Rightarrow> CallbackData list" where
  "puts tr = concat (map (\<lambda>e. case e of Put cd \<Rightarrow> [cd] | _ \<Rightarrow> []) tr)"

definition gets :: "event list \<Rightarrow> CallbackData list" where
  "gets tr = concat (map (\<lambda>e. case e of Get cd \<Rightarrow> [cd] | _ \<Rightarrow> []) tr)"

definition entered :: "event list \<Rightarrow> (int \<times> py_any option) list" where
  "entered tr =
     concat (map (\<lambda>e. case e of Lua_enter (Execute_callback cid d) \<Rightarrow> [(cid, d)] | _ \<Rightarrow> []) tr)"

text \<open>
  The engine as seen from the trace: \<open>Some False\<close> when idle, \<open>Some True\<close> while an invocation
  is in flight, \<open>None\<close> once an invocation has started while another was in flight (or one
  has ended that never started).
\<close>

fun engine_step :: "bool option \<Rightarrow> event \<Rightarrow> bool option" where
  "engine_step None e = None"
| "engine_step (Some busy) (Lua_enter c) = (if busy then None else Some True)"
| "engine_step (Some busy) (Lua_exit r) = (if busy then Some False else None)"
| "engine_step (Some busy) e = Some busy"

definition flight :: "event list \<Rightarrow> bool option" where
  "flight tr = foldl engine_step (Some False) tr"

text \<open>The events of the host functions: printed lines and the results of cancellations.\<close>

definition quiet :: "event \<Rightarrow> bool" where
  "quiet e = (case e of Stdout m \<Rightarrow> True | Cancel_returned tid b \<Rightarrow> True | _ \<Rightarrow> False)"

lemma puts_simps [simp]:
  "puts [] = []" "puts (xs @ ys) = puts xs @ puts ys"
  "puts (Put cd # xs) = cd # puts xs" "puts (Stdout m # xs) = puts xs"
  "puts (Release # xs) = puts xs" "puts (Acquire # xs) = puts xs"
  "puts (Get cd # xs) = puts xs" "puts (Lua_enter c # xs) = puts xs"
  "puts (Lua_exit res # xs) = puts xs" "puts (Cancel_returned tid b # xs) = puts xs"
  by (simp_all add: puts_def)

lemma gets_simps [simp]:
  "gets [] = []" "gets (xs @ ys) = gets xs @ gets ys"
  "gets (Get cd # xs) = cd # gets xs" "gets (Stdout m # xs) = gets xs"
  "gets (Release # xs) = gets xs" "gets (Acquire # xs) = gets xs"
  "gets (Put cd # xs) = gets xs" "gets (Lua_enter c # xs) = gets xs"
  "gets (Lua_exit res # xs) = gets xs" "gets (Cancel_returned tid b # xs) = gets xs"
  by (simp_all add: gets_def)

lemma entered_simps [simp]:
  "entered [] = []" "entered (xs @ ys) = entered xs @ entered ys"
  "entered (Get cd # xs) = entered xs" "entered (Stdout m # xs) = entered xs"
  "entered (Release # xs) = entered xs" "entered (Acquire # xs) = entered xs"
  "entered (Put cd # xs) = entered xs"
  "entered (Lua_enter c # xs) =
     (case c of Execute_callback cid d \<Rightarrow> [(cid, d)] | _ \<Rightarrow> []) @ entered xs"
  "entered (Lua_exit res # xs) = entered xs" "entered (Cancel_returned tid b # xs) = entered xs"
  by (simp_all add: entered_def)

lemma quiet_simps [simp]:
  "quiet (Stdout m)" "quiet (Cancel_returned tid b)" "\<not> quiet (Put cd)" "\<not> quiet (Get cd)"
  "\<not> quiet Release" "\<not> quiet Acquire" "\<not> quiet (Lua_enter c)" "\<not> quiet (Lua_exit res)"
  by (simp_all add: quiet_def)

lemma quiet_projections:
  assumes "list_all quiet tr"
  shows "puts tr = []" "gets tr = []" "entered tr = []"
    "foldl engine_step b tr = b"
  using assms
proof (induction tr)
  case Nil
  { case 1 show ?case by simp
  next case 2 show ?case by simp
  next case 3 show ?case by simp
  next case 4 show ?case by simp }
next
  case (Cons e tr)
  { case 1 then show ?case using Cons.IH(1) by (cases e) simp_all
  next case 2 then show ?case using Cons.IH(2) by (cases e) simp_all
  next case 3 then show ?case using Cons.IH(3) by (cases e) simp_all
  next case 4 then show ?case using Cons.IH(4) by (cases e; cases b) simp_all }
qed

lemma flight_append: "flight (xs @ ys) = foldl engine_step (flight xs) ys"
  by (simp add: flight_def)

lemma python_timer_trace:
  "\<exists>tr. trace (snd (python_timer True tid ms s)) = trace s @ tr \<and> list_all quiet tr"
  by (simp add: python_timer_unfold create_timer_def Let_def ensure_callback_loop_running_def)

lemma python_cancel_timer_trace:
  "\<exists>tr. trace (snd (python_cancel_timer tid s)) = trace s @ tr \<and> list_all quiet tr"
  by (simp add: python_cancel_timer_def Let_def split: option.splits)

lemma host_calls_trace:
  "\<exists>tr. trace (host_calls cs s) = trace s @ tr \<and> list_all quiet tr"
proof (induction cs s rule: host_calls.induct)
  case (1 s)
  then show ?case by simp
next
  case (2 tid ms cs s)
  obtain tr1 where a: "trace (snd (python_timer True tid ms s)) = trace s @ tr1" "list_all quiet tr1"
    using python_timer_trace by blast
  obtain tr2 where b: "trace (host_calls cs (snd (python_timer True tid ms s))) =
      trace (snd (python_timer True tid ms s)) @ tr2" "list_all quiet tr2"
    using 2 by blast
  have "trace (host_calls (pythonTimer tid ms # cs) s) = trace s @ (tr1 @ tr2)"
    using a b by simp
  moreover have "list_all quiet (tr1 @ tr2)" using a b by simp
  ultimately show ?case by blast
next
  case (3 tid cs s)
  obtain tr1 where a: "trace (snd (python_cancel_timer tid s)) = trace s @ tr1" "list_all quiet tr1"
    using python_cancel_timer_trace by blast
  obtain tr2 where b: "trace (host_calls cs (snd (python_cancel_timer tid s))) =
      trace (snd (python_cancel_timer tid s)) @ tr2" "list_all quiet tr2"
    using 3 by blast
  have "trace (host_calls (pythonCancelTimer tid # cs) s) = trace s @ (tr1 @ tr2)"
    using a b by simp
  moreover have "list_all quiet (tr1 @ tr2)" using a b by simp
  ultimately show ?case by blast
qed

lemma host_calls_projections [simp]:
  "puts (trace (host_calls cs s)) = puts (trace s)"
  "gets (trace (host_calls cs s)) = gets (trace s)"
  "entered (trace (host_calls cs s)) = entered (trace s)"
  "flight (trace (host_calls cs s)) = flight (trace s)"
proof -
  obtain tr where a: "trace (host_calls cs s) = trace s @ tr" "list_all quiet tr"
    using host_calls_trace by blast
  show "puts (trace (host_calls cs s)) = puts (trace s)"
    "gets (trace (host_calls cs s)) = gets (trace s)"
    "entered (trace (host_calls cs s)) = entered (trace s)"
    "flight (trace (host_calls cs s)) = flight (trace s)"
    using a by (simp_all add: quiet_projections flight_append)
qed

section \<open>The engine invocation and the dispatch of one event, in equations\<close>

declare flight_append [simp]

lemma flight_Nil [simp]: "flight [] = Some False"
  by (simp add: flight_def)

lemma lua_execute_projections:
  "puts (trace (snd (lua_execute r c s))) = puts (trace s)"
  "gets (trace (snd (lua_execute r c s))) = gets (trace s)"
  "entered (trace (snd (lua_execute r c s))) =
     entered (trace s) @ (case c of Execute_callback cid d \<Rightarrow> [(cid, d)] | _ \<Rightarrow> [])"
  "flight (trace s) = Some False \<Longrightarrow> flight (trace (snd (lua_execute r c s))) = Some False"
  by (simp_all add: lua_execute_def)

lemma execute_lua_callback_fst:
  "fst (execute_lua_callback r cid d s) =
     (if lua (interpreter s) = None then Inl (RuntimeError ''Lua runtime not initialized.'')
      else case result r of Inl e \<Rightarrow> Inl e | Inr v \<Rightarrow> Inr ())"
  by (simp add: execute_lua_callback_def returns_none_def lua_execute_def split: sum.splits)

lemma execute_lua_callback_snd:
  "snd (execute_lua_callback r cid d s) =
     (if lua (interpreter s) = None then s else snd (lua_execute r (Execute_callback cid d) s))"
  by (simp add: execute_lua_callback_def)

lemma case_result_state:
  "(case X of (Inr u, s1) \<Rightarrow> A s1 | (Inl e, s1) \<Rightarrow> B e s1) =
   (case fst X of Inl e \<Rightarrow> B e (snd X) | Inr u \<Rightarrow> A (snd X))"
  by (cases X; cases "fst X") auto

lemma dispatch_eq:
  "dispatch r cd s =
     (if known_type cd then
        (case fst (execute_lua_callback r (callback_id cd) (snd (callback_args cd)) s) of
           Inl e \<Rightarrow>
             on_failure (callback_id cd) e
               (snd (execute_lua_callback r (callback_id cd) (snd (callback_args cd)) s))
         | Inr u \<Rightarrow>
             debug_print
               (MsgId (if type cd = ''timer'' then ''Timer {callback_id} executed successfully''
                       else ''Lua callback {callback_id} executed successfully'') (callback_id cd))
               (snd (execute_lua_callback r (callback_id cd) (snd (callback_args cd)) s)))
      else s)"
  by (auto simp: dispatch_def known_type_def callback_args_def case_result_state
        split: sum.splits)

lemma execute_lua_callback_projections:
  "puts (trace (snd (execute_lua_callback r cid d s))) = puts (trace s)"
  "gets (trace (snd (execute_lua_callback r cid d s))) = gets (trace s)"
  "entered (trace (snd (execute_lua_callback r cid d s))) =
     entered (trace s) @ (if lua (interpreter s) = None then [] else [(cid, d)])"
  "flight (trace s) = Some False \<Longrightarrow>
     flight (trace (snd (execute_lua_callback r cid d s))) = Some False"
  by (simp_all add: execute_lua_callback_snd lua_execute_projections)

lemma dispatch_projections:
  "puts (trace (dispatch r cd s)) = puts (trace s)"
  "gets (trace (dispatch r cd s)) = gets (trace s)"
  "entered (trace (dispatch r cd s)) =
     entered (trace s) @
       (if known_type cd \<and> lua (interpreter s) \<noteq> None then [callback_args cd] else [])"
  "flight (trace s) = Some False \<Longrightarrow> flight (trace (dispatch r cd s)) = Some False"
  by (auto simp: dispatch_eq on_failure_def execute_lua_callback_projections callback_args_def
        split: sum.splits)

lemma execute_script_projections:
  "puts (trace (snd (execute_script r script None dbging dbg s))) = puts (trace s)"
  "gets (trace (snd (execute_script r script None dbging dbg s))) = gets (trace s)"
  "entered (trace (snd (execute_script r script None dbging dbg s))) = entered (trace s)"
  "flight (trace s) = Some False \<Longrightarrow>
     flight (trace (snd (execute_script r script None dbging dbg s))) = Some False"
  by (simp_all add: execute_script_def Let_def lua_execute_projections)

section \<open>A running loop task is not replaced\<close>

definition loop_alive :: "LuaAsyncRuntime \<Rightarrow> bool" where
  "loop_alive s = (case callback_task s of None \<Rightarrow> False | Some t \<Rightarrow> pc t \<noteq> Finished)"

lemma ensure_callback_loop_running_alive:
  "loop_alive s \<Longrightarrow>
     callback_task (snd (ensure_callback_loop_running b s)) = callback_task s"
  by (auto simp: loop_alive_def ensure_callback_loop_running_def split: option.splits)

lemma python_timer_alive:
  "loop_alive s \<Longrightarrow> callback_task (snd (python_timer True tid ms s)) = callback_task s"
  by (simp add: python_timer_unfold create_timer_def Let_def ensure_callback_loop_running_alive)

lemma host_calls_alive:
  "loop_alive s \<Longrightarrow> callback_task (host_calls cs s) = callback_task s"
proof (induction cs s rule: host_calls.induct)
  case (1 s)
  then show ?case by simp
next
  case (2 tid ms cs s)
  have a: "callback_task (snd (python_timer True tid ms s)) = callback_task s"
    using 2(2) by (rule python_timer_alive)
  then have "loop_alive (snd (python_timer True tid ms s))"
    using 2(2) by (simp add: loop_alive_def)
  then show ?case using 2(1) a by simp
next
  case (3 tid cs s)
  have a: "callback_task (snd (python_cancel_timer tid s)) = callback_task s"
    by (simp add: python_cancel_timer_fields)
  then have "loop_alive (snd (python_cancel_timer tid s))"
    using 3(2) by (simp add: loop_alive_def)
  then show ?case using 3(1) a by simp
qed

lemma dispatch_alive:
  "loop_alive s \<Longrightarrow> callback_task (dispatch r cd s) = callback_task s"
proof -
  assume a: "loop_alive s"
  have "loop_alive (emit (Lua_enter c) s)" for c
    using a by (simp add: loop_alive_def)
  then have "callback_task (host_calls (calls r) (emit (Lua_enter c) s)) = callback_task s" for c
    by (simp add: host_calls_alive)
  then show ?thesis
    by (auto simp: dispatch_eq on_failure_def execute_lua_callback_snd lua_execute_def
          split: sum.splits)
qed

section \<open>The semaphore counts the queue\<close>

definition signal_inv :: "LuaAsyncRuntime \<Rightarrow> bool" where
  "signal_inv s =
     (timer_semaphore s = length (callback_queue s) \<and>
      (case callback_task s of None \<Rightarrow> True | Some t \<Rightarrow> pc t \<noteq> In_get))"

lemma signal_inv_frame:
  "timer_semaphore s' = timer_semaphore s \<Longrightarrow> callback_queue s' = callback_queue s \<Longrightarrow>
   callback_task s' = callback_task s \<Longrightarrow> signal_inv s \<Longrightarrow> signal_inv s'"
  by (simp add: signal_inv_def)

lemma signal_inv_python_timer:
  "signal_inv s \<Longrightarrow> signal_inv (snd (python_timer True tid ms s))"
  by (auto simp: signal_inv_def python_timer_unfold create_timer_def Let_def
        ensure_callback_loop_running_def split: option.splits)

lemma signal_inv_python_cancel_timer:
  "signal_inv s \<Longrightarrow> signal_inv (snd (python_cancel_timer tid s))"
  by (simp add: signal_inv_def python_cancel_timer_fields)

lemma signal_inv_host_calls: "signal_inv s \<Longrightarrow> signal_inv (host_calls cs s)"
  by (induction cs s rule: host_calls.induct)
     (simp_all add: signal_inv_python_timer signal_inv_python_cancel_timer)

lemma signal_inv_emit [simp]: "signal_inv (emit e s) = signal_inv s"
  by (simp add: signal_inv_def)

lemma signal_inv_py_print [simp]: "signal_inv (py_print m s) = signal_inv s"
  by (simp add: signal_inv_def)

lemma signal_inv_debug_print [simp]: "signal_inv (debug_print m s) = signal_inv s"
  by (simp add: signal_inv_def)

lemma signal_inv_lua_execute: "signal_inv s \<Longrightarrow> signal_inv (snd (lua_execute r c s))"
  by (simp add: lua_execute_def signal_inv_host_calls)

lemma signal_inv_execute_script:
  "signal_inv s \<Longrightarrow> signal_inv (snd (execute_script r script src dbging dbg s))"
  by (simp add: execute_script_def Let_def signal_inv_lua_execute split: option.splits)

lemma signal_inv_dispatch: "signal_inv s \<Longrightarrow> signal_inv (dispatch r cd s)"
  by (auto simp: dispatch_eq on_failure_def execute_lua_callback_snd signal_inv_lua_execute
        split: sum.splits)

lemma signal_inv_timer_task: "signal_inv s \<Longrightarrow> signal_inv (timer_task h s)"
  by (auto simp: signal_inv_def timer_task_def Let_def timer_expired_fields
        timer_cancelled_fields split: task_status.splits)

lemma signal_inv_queue_lua_callback:
  "signal_inv s \<Longrightarrow> signal_inv (snd (queue_lua_callback True cid d s))"
  by (auto simp: signal_inv_def queue_lua_callback_def Let_def
        ensure_callback_loop_running_def split: option.splits)

lemma signal_inv_stop: "signal_inv s \<Longrightarrow> signal_inv (stop s)"
  by (auto simp: signal_inv_def stop_def split: option.splits)

lemma signal_inv_get_and_dispatch:
  assumes "timer_semaphore s = length (callback_queue s) - 1" and "callback_queue s \<noteq> []"
  shows "signal_inv (get_and_dispatch r s)"
proof -
  obtain cd rest where q: "callback_queue s = cd # rest"
    using assms(2) by (cases "callback_queue s") auto
  have "timer_semaphore (dispatch r cd (emit (Get cd) (s\<lparr>callback_queue := rest\<rparr>))) =
          length (callback_queue (dispatch r cd (emit (Get cd) (s\<lparr>callback_queue := rest\<rparr>))))"
    using assms(1) q by simp
  then show ?thesis
    using q by (auto simp: get_and_dispatch_def signal_inv_def split: option.splits)
qed

lemma signal_inv_run_timer_callbacks_loop:
  assumes "signal_inv s"
  shows "signal_inv (run_timer_callbacks_loop r s)"
proof (cases "callback_task s")
  case None
  then show ?thesis using assms by (simp add: run_timer_callbacks_loop_def)
next
  case (Some t)
  have inv: "timer_semaphore s = length (callback_queue s)" "pc t \<noteq> In_get"
    using assms Some by (simp_all add: signal_inv_def)
  show ?thesis
  proof (cases "pc t = Finished \<or> loop_must_cancel t \<or> timer_semaphore s = 0")
    case True
    then show ?thesis
      using assms Some inv
      by (cases "pc t")
         (auto simp: run_timer_callbacks_loop_def signal_inv_def Let_def)
  next
    case False
    then have pos: "callback_queue s \<noteq> []" using inv by auto
    have a: "signal_inv (get_and_dispatch r
               ((acquire s)\<lparr>task_states := (task_states (acquire s))(''callback_loop'' \<mapsto> ''active'')\<rparr>))"
      by (rule signal_inv_get_and_dispatch) (use inv pos in simp_all)
    have b: "signal_inv (get_and_dispatch r
               ((debug_print (Msg ''Callback loop awakened...'') (acquire s))
                  \<lparr>task_states := (task_states (acquire s))(''callback_loop'' \<mapsto> ''active'')\<rparr>))"
      by (rule signal_inv_get_and_dispatch) (use inv pos in simp_all)
    have c: "signal_inv (get_and_dispatch r
               ((acquire (s\<lparr>task_states := (task_states s)(''callback_loop'' \<mapsto> ''suspended'')\<rparr>))
                  \<lparr>task_states := (task_states s)(''callback_loop'' \<mapsto> ''active'')\<rparr>))"
      by (rule signal_inv_get_and_dispatch) (use inv pos in simp_all)
    show ?thesis
      using False Some inv a b c
      by (cases "pc t")
         (auto simp: run_timer_callbacks_loop_def after_acquire_def Let_def)
  qed
qed

lemma signal_inv_step: "signal_inv s \<Longrightarrow> signal_inv (step a s)"
proof (cases a)
  case (Call c)
  assume "signal_inv s"
  then show ?thesis using Call signal_inv_host_calls [of s "[c]"] by simp
next
  case (Execute_script script r)
  assume "signal_inv s"
  then show ?thesis using Execute_script by (simp add: signal_inv_execute_script)
next
  case (Queue_lua_callback cid d)
  assume "signal_inv s"
  then show ?thesis using Queue_lua_callback by (simp add: signal_inv_queue_lua_callback)
next
  case (Resume_timer h)
  assume "signal_inv s"
  then show ?thesis using Resume_timer by (simp add: signal_inv_timer_task)
next
  case Resume_queue_callback
  assume "signal_inv s"
  then show ?thesis
    using Resume_queue_callback
    by (auto simp: signal_inv_def queue_callback_def split: list.splits)
next
  case (Resume_loop r)
  assume "signal_inv s"
  then show ?thesis using Resume_loop by (simp add: signal_inv_run_timer_callbacks_loop)
next
  case Stop
  assume "signal_inv s"
  then show ?thesis using Stop by (simp add: signal_inv_stop)
qed

lemma signal_inv_run: "signal_inv s \<Longrightarrow> signal_inv (run as s)"
  by (induction as arbitrary: s) (simp_all add: signal_inv_step)

lemma signal_inv_init: "signal_inv (init interp)"
  by (simp add: signal_inv_def init_def)

text \<open>
  C4. Both places that enqueue (\<open>_queue_callback\<close>, and the expiry of a timer in
  \<open>timer_expired\<close>) follow the \<open>put\<close> with exactly one \<open>release\<close>. In every state an
  execution can reach, the semaphore's count is at least (in fact, equal to) the number
  of entries of the callback queue; so when \<open>acquire\<close> can succeed (the count is positive)
  an entry is present, and the dispatch loop is never suspended in \<open>callback_queue.get()\<close>.
\<close>

theorem signal_counts_queue:
  "(callback_queue (queue_callback cd s) = callback_queue s @ [cd] \<and>
    timer_semaphore (queue_callback cd s) = Suc (timer_semaphore s) \<and>
    trace (queue_callback cd s) = trace s @ [Put cd, Release]) \<and>
   (timer_tasks s tid \<noteq> None \<longrightarrow>
      trace (timer_expired tid s) =
        trace s @ [Put \<lparr>type = ''timer'', callback_id = tid, data = None\<rparr>, Release]) \<and>
   length (callback_queue (run as (init interp))) \<le> timer_semaphore (run as (init interp)) \<and>
   timer_semaphore (run as (init interp)) = length (callback_queue (run as (init interp))) \<and>
   (0 < timer_semaphore (run as (init interp)) \<longrightarrow> callback_queue (run as (init interp)) \<noteq> []) \<and>
   (\<forall>t. callback_task (run as (init interp)) = Some t \<longrightarrow> pc t \<noteq> In_get)"
proof -
  have "signal_inv (run as (init interp))"
    by (rule signal_inv_run) (rule signal_inv_init)
  then show ?thesis
    by (auto simp: signal_inv_def queue_callback_def timer_expired_fields)
qed

definition two_submissions :: "action list" where
  "two_submissions =
     [Call (pythonTimer 1 10), Resume_timer 0, Resume_timer 0,
      Queue_lua_callback 2 (Some ''body''), Resume_queue_callback]"

lemma two_submissions_eq:
  "run two_submissions (init interp_ready) =
     \<lparr>interpreter = interp_ready, timer_semaphore = 2,
      callback_task = Some \<lparr>pc = At_top, loop_must_cancel = False\<rparr>,
      task_states = Map.empty,
      callback_queue =
        [\<lparr>type = ''timer'', callback_id = 1, data = None\<rparr>,
         \<lparr>type = ''lua_callback'', callback_id = 2, data = Some ''body''\<rparr>],
      timer_tasks = Map.empty,
      all_tasks = [\<lparr>timer_id = 1, delay_ms = 10, status = Done, must_cancel = False\<rparr>],
      scheduled = [],
      trace =
        [Put \<lparr>type = ''timer'', callback_id = 1, data = None\<rparr>, Release,
         Put \<lparr>type = ''lua_callback'', callback_id = 2, data = Some ''body''\<rparr>, Release]\<rparr>"
  by (simp add: two_submissions_def model_defs)

theorem signal_counts_queue_witness:
  "timer_tasks sleeping_timer 1 \<noteq> None \<and>
   trace (timer_expired 1 sleeping_timer) =
     [Put \<lparr>type = ''timer'', callback_id = 1, data = None\<rparr>, Release] \<and>
   timer_semaphore (run two_submissions (init interp_ready)) = 2 \<and>
   length (callback_queue (run two_submissions (init interp_ready))) = 2 \<and>
   callback_queue (run two_submissions (init interp_ready)) \<noteq> [] \<and>
   callback_task (run two_submissions (init interp_ready)) =
     Some \<lparr>pc = At_top, loop_must_cancel = False\<rparr>"
proof -
  have h: "timer_tasks sleeping_timer 1 \<noteq> None" "trace sleeping_timer = []"
    by (simp_all add: sleeping_timer_eq)
  show ?thesis
    using h signal_counts_queue [of _ sleeping_timer 1 two_submissions interp_ready]
    by (simp add: two_submissions_eq)
qed

section \<open>First in, first out, one invocation at a time\<close>

definition dispatch_inv :: "LuaAsyncRuntime \<Rightarrow> bool" where
  "dispatch_inv s =
     (gets (trace s) @ callback_queue s = puts (trace s) \<and>
      flight (trace s) = Some False \<and>
      entered (trace s) =
        (if lua (interpreter s) = None then []
         else map callback_args (filter known_type (gets (trace s)))))"

lemma dispatch_inv_host_calls: "dispatch_inv s \<Longrightarrow> dispatch_inv (host_calls cs s)"
  by (simp add: dispatch_inv_def)

lemma dispatch_inv_execute_script:
  "dispatch_inv s \<Longrightarrow> dispatch_inv (snd (execute_script r script None dbging dbg s))"
  by (simp add: dispatch_inv_def execute_script_projections)

lemma dispatch_inv_queue_lua_callback:
  "dispatch_inv s \<Longrightarrow> dispatch_inv (snd (queue_lua_callback True cid d s))"
  by (auto simp: dispatch_inv_def queue_lua_callback_def Let_def
        ensure_callback_loop_running_def)

lemma dispatch_inv_timer_task: "dispatch_inv s \<Longrightarrow> dispatch_inv (timer_task h s)"
  by (auto simp: dispatch_inv_def timer_task_def Let_def timer_expired_fields
        timer_cancelled_fields split: task_status.splits)

lemma dispatch_inv_stop: "dispatch_inv s \<Longrightarrow> dispatch_inv (stop s)"
  by (auto simp: dispatch_inv_def stop_def split: option.splits)

lemma engine_step_passive [simp]:
  "engine_step x (Stdout m) = x" "engine_step x Acquire = x" "engine_step x Release = x"
  "engine_step x (Put cd) = x" "engine_step x (Get cd) = x"
  "engine_step x (Cancel_returned tid b) = x"
  by (cases x; simp)+

lemma dispatch_inv_frame [simp]:
  "dispatch_inv (set_pc p s) = dispatch_inv s"
  "dispatch_inv (debug_print m s) = dispatch_inv s"
  "dispatch_inv (acquire s) = dispatch_inv s"
  "dispatch_inv (s\<lparr>task_states := ts\<rparr>) = dispatch_inv s"
  by (simp_all add: dispatch_inv_def)

lemma dispatch_inv_get_and_dispatch:
  assumes "dispatch_inv s"
  shows "dispatch_inv (get_and_dispatch r s)"
proof (cases "callback_queue s")
  case Nil
  then show ?thesis using assms by (simp add: get_and_dispatch_def)
next
  case (Cons cd rest)
  have f: "flight (trace (emit (Get cd) (s\<lparr>callback_queue := rest\<rparr>))) = Some False"
    using assms by (simp add: dispatch_inv_def)
  show ?thesis
    using Cons assms dispatch_projections(4) [OF f, of r cd]
    by (auto simp: get_and_dispatch_def dispatch_inv_def dispatch_projections)
qed

lemma dispatch_inv_run_timer_callbacks_loop:
  assumes "dispatch_inv s"
  shows "dispatch_inv (run_timer_callbacks_loop r s)"
  using assms
  by (auto simp: run_timer_callbacks_loop_def after_acquire_def Let_def
        dispatch_inv_get_and_dispatch split: option.splits loop_pc.splits)

lemma dispatch_inv_step: "dispatch_inv s \<Longrightarrow> dispatch_inv (step a s)"
proof (cases a)
  case (Call c)
  assume "dispatch_inv s"
  then show ?thesis using Call dispatch_inv_host_calls [of s "[c]"] by simp
next
  case (Execute_script script r)
  assume "dispatch_inv s"
  then show ?thesis using Execute_script by (simp add: dispatch_inv_execute_script)
next
  case (Queue_lua_callback cid d)
  assume "dispatch_inv s"
  then show ?thesis using Queue_lua_callback by (simp add: dispatch_inv_queue_lua_callback)
next
  case (Resume_timer h)
  assume "dispatch_inv s"
  then show ?thesis using Resume_timer by (simp add: dispatch_inv_timer_task)
next
  case Resume_queue_callback
  assume "dispatch_inv s"
  then show ?thesis
    using Resume_queue_callback
    by (auto simp: dispatch_inv_def queue_callback_def split: list.splits)
next
  case (Resume_loop r)
  assume "dispatch_inv s"
  then show ?thesis using Resume_loop by (simp add: dispatch_inv_run_timer_callbacks_loop)
next
  case Stop
  assume "dispatch_inv s"
  then show ?thesis using Stop by (simp add: dispatch_inv_stop)
qed

lemma dispatch_inv_run: "dispatch_inv s \<Longrightarrow> dispatch_inv (run as s)"
  by (induction as arbitrary: s) (simp_all add: dispatch_inv_step)

lemma dispatch_inv_init: "dispatch_inv (init interp)"
  by (simp add: dispatch_inv_def init_def)

lemma interpreter_step [simp]: "interpreter (step a s) = interpreter s"
proof (cases a)
  case (Call c)
  then show ?thesis by (cases c) (simp_all add: python_timer_fields python_cancel_timer_fields)
next
  case (Execute_script script r)
  then show ?thesis by simp
next
  case (Queue_lua_callback cid d)
  then show ?thesis
    by (simp add: queue_lua_callback_def Let_def ensure_callback_loop_running_def)
next
  case (Resume_timer h)
  then show ?thesis
    by (simp add: timer_task_def Let_def timer_expired_fields timer_cancelled_fields
          split: task_status.splits)
next
  case Resume_queue_callback
  then show ?thesis by (simp add: queue_callback_def split: list.splits)
next
  case (Resume_loop r)
  then show ?thesis
    by (simp add: run_timer_callbacks_loop_def after_acquire_def get_and_dispatch_def Let_def
          split: option.splits loop_pc.splits list.splits)
next
  case Stop
  then show ?thesis by (simp add: stop_def split: option.splits)
qed

lemma interpreter_run [simp]: "interpreter (run as s) = interpreter s"
  by (induction as arbitrary: s) simp_all

lemma run_append: "run (as @ bs) s = run bs (run as s)"
  by (induction as arbitrary: s) simp_all

lemma flight_prefix: "flight (xs @ ys) \<noteq> None \<Longrightarrow> flight xs \<noteq> None"
proof -
  have "foldl engine_step None ys = None" by (induction ys) simp_all
  then show "flight (xs @ ys) \<noteq> None \<Longrightarrow> flight xs \<noteq> None"
    by (cases "flight xs") simp_all
qed

text \<open>
  C5. In every state an execution can reach: the events the dispatch loop has dequeued,
  followed by the events still in the queue, are the events enqueued, in the order of
  their enqueueing (first in, first out, nothing reordered); with an initialised
  interpreter the engine has been entered for the dequeued events of a known type, one
  invocation each and in that same order; and no invocation of the engine has started
  while another was in flight, at any point of the trace (the engine is idle between
  the steps of the event loop).
\<close>

theorem fifo_one_at_a_time:
  "gets (trace (run as (init interp))) @ callback_queue (run as (init interp)) =
     puts (trace (run as (init interp))) \<and>
   (lua interp \<noteq> None \<longrightarrow>
      entered (trace (run as (init interp))) =
        map callback_args (filter known_type (gets (trace (run as (init interp)))))) \<and>
   flight (trace (run as (init interp))) = Some False \<and>
   (\<forall>n. flight (take n (trace (run as (init interp)))) \<noteq> None)"
proof -
  have inv: "dispatch_inv (run as (init interp))"
    by (rule dispatch_inv_run) (rule dispatch_inv_init)
  have i: "interpreter (run as (init interp)) = interp"
    by (simp add: init_def)
  have "flight (take n (trace (run as (init interp)))) \<noteq> None" for n
  proof (rule flight_prefix)
    show "flight (take n (trace (run as (init interp))) @ drop n (trace (run as (init interp)))) \<noteq> None"
      using inv by (simp add: dispatch_inv_def)
  qed
  then show ?thesis
    using inv i by (auto simp: dispatch_inv_def)
qed

definition two_dispatches :: "action list" where
  "two_dispatches = two_submissions @ [Resume_loop returns_true, Resume_loop returns_true]"

lemma two_dispatches_trace:
  "trace (run two_dispatches (init interp_ready)) =
     [Put \<lparr>type = ''timer'', callback_id = 1, data = None\<rparr>, Release,
      Put \<lparr>type = ''lua_callback'', callback_id = 2, data = Some ''body''\<rparr>, Release,
      Acquire, Get \<lparr>type = ''timer'', callback_id = 1, data = None\<rparr>,
      Lua_enter (Execute_callback 1 None), Lua_exit (Inr True),
      Acquire, Get \<lparr>type = ''lua_callback'', callback_id = 2, data = Some ''body''\<rparr>,
      Lua_enter (Execute_callback 2 (Some ''body'')), Lua_exit (Inr True)]"
  "callback_queue (run two_dispatches (init interp_ready)) = []"
  by (simp_all add: two_dispatches_def run_append two_submissions_eq)
     (simp_all add: model_defs)

theorem fifo_one_at_a_time_witness:
  "lua interp_ready \<noteq> None \<and>
   gets (trace (run two_dispatches (init interp_ready))) =
     [\<lparr>type = ''timer'', callback_id = 1, data = None\<rparr>,
      \<lparr>type = ''lua_callback'', callback_id = 2, data = Some ''body''\<rparr>] \<and>
   puts (trace (run two_dispatches (init interp_ready))) =
     gets (trace (run two_dispatches (init interp_ready))) \<and>
   entered (trace (run two_dispatches (init interp_ready))) = [(1, None), (2, Some ''body'')] \<and>
   flight (trace (run two_dispatches (init interp_ready))) = Some False"
proof -
  have h: "lua interp_ready \<noteq> None" by (simp add: interp_ready_def)
  show ?thesis
    using h fifo_one_at_a_time [of two_dispatches interp_ready]
    by (simp add: two_dispatches_trace known_type_def callback_args_def)
qed

section \<open>A failing callback\<close>

lemma lua_execute_trace:
  "\<exists>tr. trace (snd (lua_execute r c s)) = trace s @ tr"
proof -
  obtain tr where "trace (host_calls (calls r) (emit (Lua_enter c) s)) =
      trace (emit (Lua_enter c) s) @ tr"
    using host_calls_trace by blast
  then have "trace (snd (lua_execute r c s)) = trace s @ ([Lua_enter c] @ tr @ [Lua_exit (result r)])"
    by (simp add: lua_execute_def)
  then show ?thesis by blast
qed

lemma execute_lua_callback_trace:
  "\<exists>tr. trace (snd (execute_lua_callback r cid d s)) = trace s @ tr"
  using lua_execute_trace [of r "Execute_callback cid d" s]
  by (simp add: execute_lua_callback_snd)

lemma dispatch_failure:
  assumes "known_type cd"
    and "fst (execute_lua_callback r (callback_id cd) (snd (callback_args cd)) s) = Inl e"
  shows "\<exists>tr. trace (dispatch r cd s) =
           trace s @ tr @ [Stdout (Callback_execution_error (callback_id cd) e), Stdout (Traceback e)]"
proof -
  obtain tr where
    "trace (snd (execute_lua_callback r (callback_id cd) (snd (callback_args cd)) s)) = trace s @ tr"
    using execute_lua_callback_trace by blast
  then have "trace (dispatch r cd s) =
      trace s @ tr @ [Stdout (Callback_execution_error (callback_id cd) e), Stdout (Traceback e)]"
    using assms by (simp add: dispatch_eq on_failure_def)
  then show ?thesis by blast
qed

lemma get_and_dispatch_Cons:
  assumes "callback_queue s = cd # rest" and "callback_task s = Some t" and "pc t \<noteq> Finished"
  shows "callback_queue (get_and_dispatch r s) = rest"
    and "timer_semaphore (get_and_dispatch r s) = timer_semaphore s"
    and "callback_task (get_and_dispatch r s) = Some (t\<lparr>pc := At_top\<rparr>)"
    and "trace (get_and_dispatch r s) = trace (dispatch r cd (emit (Get cd) (s\<lparr>callback_queue := rest\<rparr>)))"
    and "gets (trace (get_and_dispatch r s)) = gets (trace s) @ [cd]"
    and "entered (trace (get_and_dispatch r s)) =
           entered (trace s) @
             (if known_type cd \<and> lua (interpreter s) \<noteq> None then [callback_args cd] else [])"
proof -
  have "loop_alive (emit (Get cd) (s\<lparr>callback_queue := rest\<rparr>))"
    using assms(2,3) by (simp add: loop_alive_def)
  then have "callback_task (dispatch r cd (emit (Get cd) (s\<lparr>callback_queue := rest\<rparr>))) = Some t"
    using assms(2) by (simp add: dispatch_alive)
  then show "callback_task (get_and_dispatch r s) = Some (t\<lparr>pc := At_top\<rparr>)"
    using assms(1) by (simp add: get_and_dispatch_def)
  show "callback_queue (get_and_dispatch r s) = rest"
    "timer_semaphore (get_and_dispatch r s) = timer_semaphore s"
    "trace (get_and_dispatch r s) = trace (dispatch r cd (emit (Get cd) (s\<lparr>callback_queue := rest\<rparr>)))"
    "gets (trace (get_and_dispatch r s)) = gets (trace s) @ [cd]"
    "entered (trace (get_and_dispatch r s)) =
       entered (trace s) @
         (if known_type cd \<and> lua (interpreter s) \<noteq> None then [callback_args cd] else [])"
    using assms(1) by (simp_all add: get_and_dispatch_def dispatch_projections)
qed

text \<open>
  The state in which the loop calls \<open>callback_queue.get()\<close> when it is resumed with a
  positive semaphore: after the \<open>acquire\<close> and the bookkeeping around it.
\<close>

definition acquired :: "loop_pc \<Rightarrow> LuaAsyncRuntime \<Rightarrow> LuaAsyncRuntime" where
  "acquired p s =
     (if p = At_top
      then (acquire (s\<lparr>task_states := (task_states s)(''callback_loop'' \<mapsto> ''suspended'')\<rparr>))
             \<lparr>task_states := (task_states s)(''callback_loop'' \<mapsto> ''active'')\<rparr>
      else (debug_print (Msg ''Callback loop awakened...'') (acquire s))
             \<lparr>task_states := (task_states s)(''callback_loop'' \<mapsto> ''active'')\<rparr>)"

lemma acquired_fields [simp]:
  "interpreter (acquired p s) = interpreter s"
  "timer_semaphore (acquired p s) = timer_semaphore s - 1"
  "callback_task (acquired p s) = callback_task s"
  "callback_queue (acquired p s) = callback_queue s"
  "gets (trace (acquired p s)) = gets (trace s)"
  "entered (trace (acquired p s)) = entered (trace s)"
  "\<exists>tr. trace (acquired p s) = trace s @ tr"
  by (simp_all add: acquired_def)

lemma run_timer_callbacks_loop_acquired:
  assumes "callback_task s = Some t" and "pc t = At_top \<or> pc t = In_acquire"
    and "\<not> loop_must_cancel t" and "0 < timer_semaphore s"
  shows "run_timer_callbacks_loop r s = get_and_dispatch r (acquired (pc t) s)"
  using assms
  by (auto simp: run_timer_callbacks_loop_def after_acquire_def acquired_def Let_def)

lemma loop_dispatches_head:
  assumes "callback_task s = Some t" and "pc t = At_top \<or> pc t = In_acquire"
    and "\<not> loop_must_cancel t" and "timer_semaphore s = length (callback_queue s)"
    and "callback_queue s = cd # rest"
  shows "callback_queue (run_timer_callbacks_loop r s) = rest"
    and "timer_semaphore (run_timer_callbacks_loop r s) = length rest"
    and "callback_task (run_timer_callbacks_loop r s) = Some (t\<lparr>pc := At_top\<rparr>)"
    and "gets (trace (run_timer_callbacks_loop r s)) = gets (trace s) @ [cd]"
    and "entered (trace (run_timer_callbacks_loop r s)) =
           entered (trace s) @
             (if known_type cd \<and> lua (interpreter s) \<noteq> None then [callback_args cd] else [])"
    and "trace (run_timer_callbacks_loop r s) =
           trace (dispatch r cd (emit (Get cd) ((acquired (pc t) s)\<lparr>callback_queue := rest\<rparr>)))"
proof -
  have e: "run_timer_callbacks_loop r s = get_and_dispatch r (acquired (pc t) s)"
    using assms by (intro run_timer_callbacks_loop_acquired) simp_all
  have q: "callback_queue (acquired (pc t) s) = cd # rest"
    "callback_task (acquired (pc t) s) = Some t" "pc t \<noteq> Finished"
    using assms by auto
  show "callback_queue (run_timer_callbacks_loop r s) = rest"
    "timer_semaphore (run_timer_callbacks_loop r s) = length rest"
    "callback_task (run_timer_callbacks_loop r s) = Some (t\<lparr>pc := At_top\<rparr>)"
    "gets (trace (run_timer_callbacks_loop r s)) = gets (trace s) @ [cd]"
    "entered (trace (run_timer_callbacks_loop r s)) =
       entered (trace s) @
         (if known_type cd \<and> lua (interpreter s) \<noteq> None then [callback_args cd] else [])"
    "trace (run_timer_callbacks_loop r s) =
       trace (dispatch r cd (emit (Get cd) ((acquired (pc t) s)\<lparr>callback_queue := rest\<rparr>)))"
    using get_and_dispatch_Cons [OF q, of r] assms(4,5) by (simp_all add: e)
qed

lemma loop_drains_queue:
  assumes "callback_task s = Some t" and "pc t = At_top \<or> pc t = In_acquire"
    and "\<not> loop_must_cancel t" and "timer_semaphore s = length (callback_queue s)"
    and "length rs = length (callback_queue s)"
  shows "callback_queue (run (map Resume_loop rs) s) = [] \<and>
         timer_semaphore (run (map Resume_loop rs) s) = 0 \<and>
         loop_alive (run (map Resume_loop rs) s) \<and>
         gets (trace (run (map Resume_loop rs) s)) = gets (trace s) @ callback_queue s \<and>
         entered (trace (run (map Resume_loop rs) s)) =
           entered (trace s) @
             (if lua (interpreter s) = None then []
              else map callback_args (filter known_type (callback_queue s)))"
  using assms
proof (induction rs arbitrary: s t)
  case Nil
  then show ?case by (auto simp: loop_alive_def)
next
  case (Cons r rs)
  obtain cd rest where q: "callback_queue s = cd # rest"
    using Cons.prems(5) by (cases "callback_queue s") auto
  note h = loop_dispatches_head [OF Cons.prems(1-4) q, of r]
  have "callback_queue (run (map Resume_loop rs) (run_timer_callbacks_loop r s)) = [] \<and>
        timer_semaphore (run (map Resume_loop rs) (run_timer_callbacks_loop r s)) = 0 \<and>
        loop_alive (run (map Resume_loop rs) (run_timer_callbacks_loop r s)) \<and>
        gets (trace (run (map Resume_loop rs) (run_timer_callbacks_loop r s))) =
          gets (trace (run_timer_callbacks_loop r s)) @ callback_queue (run_timer_callbacks_loop r s) \<and>
        entered (trace (run (map Resume_loop rs) (run_timer_callbacks_loop r s))) =
          entered (trace (run_timer_callbacks_loop r s)) @
            (if lua (interpreter (run_timer_callbacks_loop r s)) = None then []
             else map callback_args (filter known_type (callback_queue (run_timer_callbacks_loop r s))))"
  proof (rule Cons.IH)
    show "callback_task (run_timer_callbacks_loop r s) = Some (t\<lparr>pc := At_top\<rparr>)" by (rule h(3))
    show "pc (t\<lparr>pc := At_top\<rparr>) = At_top \<or> pc (t\<lparr>pc := At_top\<rparr>) = In_acquire" by simp
    show "\<not> loop_must_cancel (t\<lparr>pc := At_top\<rparr>)" using Cons.prems(3) by simp
    show "timer_semaphore (run_timer_callbacks_loop r s) =
            length (callback_queue (run_timer_callbacks_loop r s))"
      using h(1,2) by simp
    show "length rs = length (callback_queue (run_timer_callbacks_loop r s))"
      using h(1) Cons.prems(5) q by simp
  qed
  moreover have "interpreter (run_timer_callbacks_loop r s) = interpreter s"
    using interpreter_step [of "Resume_loop r" s] by simp
  ultimately show ?case
    using h(1,4,5) q by auto
qed

text \<open>
  C3. The dispatch loop is resumed with an event \<open>cd\<close> of a known type at the head of the
  queue, and \<open>execute_lua_callback\<close> raises \<open>e\<close> for it (because the engine's run fails, or
  because the interpreter is not initialised). Then the exception is caught in the loop:
  the step ends with the diagnostic \<open>Callback {callback_id} execution error: {e}\<close> and the
  traceback on the console, the loop task is not done but back at the top of its \<open>while\<close>,
  and the event is consumed. Whatever the engine does at the following invocations (\<open>rs\<close>,
  failing or not), resuming the loop once per remaining event dequeues every one of
  them, in order, enters the engine for each event of a known type, and leaves the loop
  running.
\<close>

theorem callback_failure_is_isolated:
  assumes "callback_task s = Some t" and "pc t = At_top \<or> pc t = In_acquire"
    and "\<not> loop_must_cancel t" and "timer_semaphore s = length (callback_queue s)"
    and "callback_queue s = cd # rest" and "known_type cd"
    and "fst (execute_lua_callback r (callback_id cd) (snd (callback_args cd)) s) = Inl e"
  shows "(\<exists>tr. trace (run_timer_callbacks_loop r s) =
            trace s @ tr @
              [Stdout (Callback_execution_error (callback_id cd) e), Stdout (Traceback e)]) \<and>
         callback_task (run_timer_callbacks_loop r s) = Some (t\<lparr>pc := At_top\<rparr>) \<and>
         callback_queue (run_timer_callbacks_loop r s) = rest \<and>
         timer_semaphore (run_timer_callbacks_loop r s) = length rest \<and>
         (\<forall>rs. length rs = length rest \<longrightarrow>
            callback_queue (run (map Resume_loop rs) (run_timer_callbacks_loop r s)) = [] \<and>
            loop_alive (run (map Resume_loop rs) (run_timer_callbacks_loop r s)) \<and>
            gets (trace (run (map Resume_loop rs) (run_timer_callbacks_loop r s))) =
              gets (trace s) @ cd # rest \<and>
            entered (trace (run (map Resume_loop rs) (run_timer_callbacks_loop r s))) =
              entered (trace s) @
                (if lua (interpreter s) = None then []
                 else map callback_args (filter known_type (cd # rest))))"
proof -
  note h = loop_dispatches_head [OF assms(1-5), of r]
  let ?s' = "emit (Get cd) ((acquired (pc t) s)\<lparr>callback_queue := rest\<rparr>)"
  have "fst (execute_lua_callback r (callback_id cd) (snd (callback_args cd)) ?s') = Inl e"
    using assms(7) by (simp add: execute_lua_callback_fst)
  then obtain tr where
    "trace (dispatch r cd ?s') =
       trace ?s' @ tr @ [Stdout (Callback_execution_error (callback_id cd) e), Stdout (Traceback e)]"
    using dispatch_failure [OF assms(6)] by blast
  moreover obtain tr0 where "trace (acquired (pc t) s) = trace s @ tr0"
    using acquired_fields(7) by blast
  ultimately have "trace (run_timer_callbacks_loop r s) =
      trace s @ (tr0 @ Get cd # tr) @
        [Stdout (Callback_execution_error (callback_id cd) e), Stdout (Traceback e)]"
    using h(6) by simp
  then have first: "\<exists>tr. trace (run_timer_callbacks_loop r s) =
      trace s @ tr @ [Stdout (Callback_execution_error (callback_id cd) e), Stdout (Traceback e)]"
    by blast
  have i: "interpreter (run_timer_callbacks_loop r s) = interpreter s"
    using interpreter_step [of "Resume_loop r" s] by simp
  have rest: "callback_queue (run (map Resume_loop rs) (run_timer_callbacks_loop r s)) = [] \<and>
      loop_alive (run (map Resume_loop rs) (run_timer_callbacks_loop r s)) \<and>
      gets (trace (run (map Resume_loop rs) (run_timer_callbacks_loop r s))) =
        gets (trace s) @ cd # rest \<and>
      entered (trace (run (map Resume_loop rs) (run_timer_callbacks_loop r s))) =
        entered (trace s) @
          (if lua (interpreter s) = None then []
           else map callback_args (filter known_type (cd # rest)))"
    if len: "length rs = length rest" for rs
  proof -
    have "callback_queue (run (map Resume_loop rs) (run_timer_callbacks_loop r s)) = [] \<and>
        timer_semaphore (run (map Resume_loop rs) (run_timer_callbacks_loop r s)) = 0 \<and>
        loop_alive (run (map Resume_loop rs) (run_timer_callbacks_loop r s)) \<and>
        gets (trace (run (map Resume_loop rs) (run_timer_callbacks_loop r s))) =
          gets (trace (run_timer_callbacks_loop r s)) @ callback_queue (run_timer_callbacks_loop r s) \<and>
        entered (trace (run (map Resume_loop rs) (run_timer_callbacks_loop r s))) =
          entered (trace (run_timer_callbacks_loop r s)) @
            (if lua (interpreter (run_timer_callbacks_loop r s)) = None then []
             else map callback_args (filter known_type (callback_queue (run_timer_callbacks_loop r s))))"
    proof (rule loop_drains_queue)
      show "callback_task (run_timer_callbacks_loop r s) = Some (t\<lparr>pc := At_top\<rparr>)" by (rule h(3))
      show "pc (t\<lparr>pc := At_top\<rparr>) = At_top \<or> pc (t\<lparr>pc := At_top\<rparr>) = In_acquire" by simp
      show "\<not> loop_must_cancel (t\<lparr>pc := At_top\<rparr>)" using assms(3) by simp
      show "timer_semaphore (run_timer_callbacks_loop r s) =
              length (callback_queue (run_timer_callbacks_loop r s))"
        using h(1,2) by simp
      show "length rs = length (callback_queue (run_timer_callbacks_loop r s))"
        using h(1) len by simp
    qed
    then show ?thesis using h(1,4,5) i assms(6) by auto
  qed
  show ?thesis
    using first h(1,2,3) rest by blast
qed

lemma interp_ready_fields [simp]:
  "lua interp_ready = Some LuaRuntime" "debug interp_ready = False"
  by (simp_all add: interp_ready_def)

definition fails :: lua_run where
  "fails = \<lparr>calls = [pythonTimer 3 5], result = Inl (LuaError ''attempt to call a nil value'')\<rparr>"

theorem callback_failure_is_isolated_witness:
  "callback_task (run two_submissions (init interp_ready)) =
     Some \<lparr>pc = At_top, loop_must_cancel = False\<rparr> \<and>
   timer_semaphore (run two_submissions (init interp_ready)) =
     length (callback_queue (run two_submissions (init interp_ready))) \<and>
   callback_queue (run two_submissions (init interp_ready)) =
     [\<lparr>type = ''timer'', callback_id = 1, data = None\<rparr>,
      \<lparr>type = ''lua_callback'', callback_id = 2, data = Some ''body''\<rparr>] \<and>
   known_type \<lparr>type = ''timer'', callback_id = 1, data = None\<rparr> \<and>
   fst (execute_lua_callback fails 1 None (run two_submissions (init interp_ready))) =
     Inl (LuaError ''attempt to call a nil value'') \<and>
   trace (run_timer_callbacks_loop fails (run two_submissions (init interp_ready))) =
     trace (run two_submissions (init interp_ready)) @
       [Acquire, Get \<lparr>type = ''timer'', callback_id = 1, data = None\<rparr>,
        Lua_enter (Execute_callback 1 None),
        Lua_exit (Inl (LuaError ''attempt to call a nil value'')),
        Stdout (Callback_execution_error 1 (LuaError ''attempt to call a nil value'')),
        Stdout (Traceback (LuaError ''attempt to call a nil value''))] \<and>
   callback_task (run_timer_callbacks_loop fails (run two_submissions (init interp_ready))) =
     Some \<lparr>pc = At_top, loop_must_cancel = False\<rparr> \<and>
   callback_queue (run (map Resume_loop [returns_true])
       (run_timer_callbacks_loop fails (run two_submissions (init interp_ready)))) = [] \<and>
   loop_alive (run (map Resume_loop [returns_true])
       (run_timer_callbacks_loop fails (run two_submissions (init interp_ready)))) \<and>
   entered (trace (run (map Resume_loop [returns_true])
       (run_timer_callbacks_loop fails (run two_submissions (init interp_ready))))) =
     [(1, None), (2, Some ''body'')]"
proof -
  let ?s = "run two_submissions (init interp_ready)"
  let ?t = "\<lparr>pc = At_top, loop_must_cancel = False\<rparr>"
  let ?cd = "\<lparr>type = ''timer'', callback_id = 1, data = None\<rparr>"
  let ?rest = "[\<lparr>type = ''lua_callback'', callback_id = 2, data = Some ''body''\<rparr>]"
  have h: "callback_task ?s = Some ?t" "pc ?t = At_top \<or> pc ?t = In_acquire"
      "\<not> loop_must_cancel ?t" "timer_semaphore ?s = length (callback_queue ?s)"
      "callback_queue ?s = ?cd # ?rest" "known_type ?cd"
      "fst (execute_lua_callback fails (callback_id ?cd) (snd (callback_args ?cd)) ?s) =
         Inl (LuaError ''attempt to call a nil value'')"
    by (simp_all add: two_submissions_eq known_type_def callback_args_def
          execute_lua_callback_fst fails_def)
  have tr: "trace (run_timer_callbacks_loop fails ?s) =
     trace ?s @
       [Acquire, Get ?cd, Lua_enter (Execute_callback 1 None),
        Lua_exit (Inl (LuaError ''attempt to call a nil value'')),
        Stdout (Callback_execution_error 1 (LuaError ''attempt to call a nil value'')),
        Stdout (Traceback (LuaError ''attempt to call a nil value''))]"
    by (simp add: two_submissions_eq) (simp add: model_defs fails_def)
  have e: "entered (trace ?s) = []" "lua (interpreter ?s) \<noteq> None"
    by (simp_all add: two_submissions_eq)
  show ?thesis
    using h tr e callback_failure_is_isolated [OF h, THEN conjunct2, THEN conjunct2,
        THEN conjunct2, THEN conjunct2, THEN spec, of "[returns_true]"]
      callback_failure_is_isolated [OF h]
    by (simp add: known_type_def callback_args_def)
qed

section \<open>Cancelling a timer\<close>

text \<open>Whether a step of an execution creates a timer under the identifier \<open>tid\<close>.\<close>

fun creates_call :: "int \<Rightarrow> host_call \<Rightarrow> bool" where
  "creates_call tid (pythonTimer tid' ms) = (tid' = tid)"
| "creates_call tid (pythonCancelTimer tid') = False"

fun creates :: "int \<Rightarrow> action \<Rightarrow> bool" where
  "creates tid (Call c) = creates_call tid c"
| "creates tid (Execute_script script r) = list_ex (creates_call tid) (calls r)"
| "creates tid (Resume_loop r) = list_ex (creates_call tid) (calls r)"
| "creates tid (Queue_lua_callback cid d) = False"
| "creates tid (Resume_timer h) = False"
| "creates tid Resume_queue_callback = False"
| "creates tid Stop = False"

lemma host_calls_no_create:
  "timer_tasks s tid = None \<Longrightarrow> \<not> list_ex (creates_call tid) cs \<Longrightarrow>
     timer_tasks (host_calls cs s) tid = None"
  by (induction cs s rule: host_calls.induct)
     (simp_all add: python_timer_fields python_cancel_timer_fields)

lemma lua_execute_no_create:
  "timer_tasks s tid = None \<Longrightarrow> \<not> list_ex (creates_call tid) (calls r) \<Longrightarrow>
     timer_tasks (snd (lua_execute r c s)) tid = None"
  by (simp add: lua_execute_def host_calls_no_create)

lemma dispatch_no_create:
  "timer_tasks s tid = None \<Longrightarrow> \<not> list_ex (creates_call tid) (calls r) \<Longrightarrow>
     timer_tasks (dispatch r cd s) tid = None"
  by (auto simp: dispatch_eq on_failure_def execute_lua_callback_snd lua_execute_no_create
        split: sum.splits)

lemma get_and_dispatch_no_create:
  "timer_tasks s tid = None \<Longrightarrow> \<not> list_ex (creates_call tid) (calls r) \<Longrightarrow>
     timer_tasks (get_and_dispatch r s) tid = None"
  by (simp add: get_and_dispatch_def dispatch_no_create split: list.splits)

lemma step_no_create:
  assumes "timer_tasks s tid = None" and "\<not> creates tid a"
  shows "timer_tasks (step a s) tid = None"
proof (cases a)
  case (Call c)
  then show ?thesis using assms host_calls_no_create [of s tid "[c]"] by simp
next
  case (Execute_script script r)
  then show ?thesis
    using assms by (simp add: execute_script_def Let_def lua_execute_no_create)
next
  case (Queue_lua_callback cid d)
  then show ?thesis
    using assms by (simp add: queue_lua_callback_def Let_def ensure_callback_loop_running_def)
next
  case (Resume_timer h)
  then show ?thesis
    using assms
    by (simp add: timer_task_def Let_def timer_expired_fields timer_cancelled_fields
          split: task_status.splits)
next
  case Resume_queue_callback
  then show ?thesis using assms by (simp add: queue_callback_def split: list.splits)
next
  case (Resume_loop r)
  then show ?thesis
    using assms
    by (simp add: run_timer_callbacks_loop_def after_acquire_def Let_def
          get_and_dispatch_no_create split: option.splits loop_pc.splits)
next
  case Stop
  then show ?thesis using assms by (simp add: stop_def split: option.splits)
qed

lemma run_no_create:
  "timer_tasks s tid = None \<Longrightarrow> list_all (\<lambda>a. \<not> creates tid a) as \<Longrightarrow>
     timer_tasks (run as s) tid = None"
  by (induction as arbitrary: s) (simp_all add: step_no_create)

lemma python_cancel_timer_fst:
  "fst (python_cancel_timer tid s) = (timer_tasks s tid \<noteq> None)"
  by (simp add: python_cancel_timer_def Let_def split: option.splits)

lemma python_cancel_timer_requests_cancel:
  assumes "timer_tasks s tid = Some h" and "h < length (all_tasks s)"
    and "status (all_tasks s ! h) \<noteq> Done"
  shows "all_tasks (snd (python_cancel_timer tid s)) =
           (all_tasks s)[h := (all_tasks s ! h)\<lparr>must_cancel := True\<rparr>]"
  using assms by (simp add: python_cancel_timer_def Let_def task_done_def)

text \<open>
  C6. \<open>python_cancel_timer\<close> returns \<open>True\<close> exactly when the identifier is in \<open>timer_tasks\<close>
  at the call. It removes the identifier, and when the task found is not done it
  requests its cancellation. As long as no timer is created under the identifier
  again, every later cancellation returns \<open>False\<close>: after a cancellation, and after the
  timer's task has run to its end (dispatched or cancelled).
\<close>

theorem cancel_timer_result:
  "fst (python_cancel_timer tid s) = (timer_tasks s tid \<noteq> None) \<and>
   timer_tasks (snd (python_cancel_timer tid s)) tid = None \<and>
   (timer_tasks s tid = Some h \<and> h < length (all_tasks s) \<and> status (all_tasks s ! h) \<noteq> Done \<longrightarrow>
      must_cancel (all_tasks (snd (python_cancel_timer tid s)) ! h)) \<and>
   (list_all (\<lambda>a. \<not> creates tid a) as \<longrightarrow>
      \<not> fst (python_cancel_timer tid (run as (snd (python_cancel_timer tid s))))) \<and>
   (list_all (\<lambda>a. \<not> creates tid a) as \<and> k < length (all_tasks s) \<and>
      status (all_tasks s ! k) = Sleeping \<and> timer_id (all_tasks s ! k) = tid \<longrightarrow>
      \<not> fst (python_cancel_timer tid (run as (timer_task k s))))"
proof -
  have a: "timer_tasks (snd (python_cancel_timer tid s)) tid = None"
    by (simp add: python_cancel_timer_fields)
  have b: "timer_tasks (timer_task k s) tid = None"
    if "k < length (all_tasks s)" "status (all_tasks s ! k) = Sleeping"
      "timer_id (all_tasks s ! k) = tid"
    using that by (simp add: timer_task_def Let_def timer_expired_fields timer_cancelled_fields)
  show ?thesis
    using a b
    by (auto simp: python_cancel_timer_fst python_cancel_timer_requests_cancel run_no_create)
qed

definition after_cancel :: "action list" where
  "after_cancel = [Resume_timer 0, Resume_loop returns_true, Call (pythonCancelTimer 1),
                   Call (pythonTimer 2 30)]"

theorem cancel_timer_result_witness:
  "timer_tasks sleeping_timer 1 = Some 0 \<and>
   0 < length (all_tasks sleeping_timer) \<and>
   status (all_tasks sleeping_timer ! 0) = Sleeping \<and>
   timer_id (all_tasks sleeping_timer ! 0) = 1 \<and>
   list_all (\<lambda>a. \<not> creates 1 a) after_cancel \<and>
   fst (python_cancel_timer 1 sleeping_timer) \<and>
   timer_tasks (snd (python_cancel_timer 1 sleeping_timer)) 1 = None \<and>
   must_cancel (all_tasks (snd (python_cancel_timer 1 sleeping_timer)) ! 0) \<and>
   \<not> fst (python_cancel_timer 1 (run after_cancel (snd (python_cancel_timer 1 sleeping_timer)))) \<and>
   \<not> fst (python_cancel_timer 1 (run after_cancel (timer_task 0 sleeping_timer)))"
proof -
  have h: "timer_tasks sleeping_timer 1 = Some 0" "0 < length (all_tasks sleeping_timer)"
      "status (all_tasks sleeping_timer ! 0) = Sleeping"
      "timer_id (all_tasks sleeping_timer ! 0) = 1"
    by (simp_all add: sleeping_timer_eq)
  have n: "list_all (\<lambda>a. \<not> creates 1 a) after_cancel"
    by (simp add: after_cancel_def returns_true_def)
  show ?thesis
    using h n cancel_timer_result [of 1 sleeping_timer 0 after_cancel 0]
    by simp
qed

section \<open>Stopping the runtime\<close>

text \<open>
  C7, as the code has it. \<open>stop()\<close> requests the cancellation of the dispatch loop's task,
  when there is one that is not done, and prints \<open>Lua runtime stopped\<close>. The cancellation
  ends the loop task at its next resumption, with nothing dequeued and the engine not
  entered. \<open>stop()\<close> cancels no timer and removes nothing: the live timers, their tasks,
  the scheduled submissions, the callback queue and the semaphore are as before, and in
  a state an execution can reach no engine invocation is in flight when \<open>stop()\<close> runs.
\<close>

theorem stop_cancels_only_the_loop:
  "timer_tasks (stop s) = timer_tasks s \<and> all_tasks (stop s) = all_tasks s \<and>
   callback_queue (stop s) = callback_queue s \<and> timer_semaphore (stop s) = timer_semaphore s \<and>
   scheduled (stop s) = scheduled s \<and>
   trace (stop s) = trace s @ [Stdout (Msg ''Lua runtime stopped'')] \<and>
   (callback_task s = None \<longrightarrow> callback_task (stop s) = None) \<and>
   (callback_task s = Some t \<and> pc t \<noteq> Finished \<longrightarrow>
      callback_task (stop s) = Some (t\<lparr>loop_must_cancel := True\<rparr>) \<and>
      run_timer_callbacks_loop r (stop s) = set_pc Finished (stop s) \<and>
      trace (run_timer_callbacks_loop r (stop s)) = trace (stop s) \<and>
      callback_queue (run_timer_callbacks_loop r (stop s)) = callback_queue s) \<and>
   flight (trace (stop (run as (init interp)))) = Some False"
proof -
  have "dispatch_inv (stop (run as (init interp)))"
    by (intro dispatch_inv_stop dispatch_inv_run dispatch_inv_init)
  then show ?thesis
    by (auto simp: stop_def run_timer_callbacks_loop_def dispatch_inv_def split: option.splits)
qed

definition stop_with_timer_waiting :: "action list" where
  "stop_with_timer_waiting =
     [Call (pythonTimer 1 50), Resume_loop returns_true, Resume_timer 0, Stop]"

theorem stop_leaves_timers_and_queue:
  "timer_tasks (run stop_with_timer_waiting (init interp_ready)) 1 = Some 0 \<and>
   all_tasks (run stop_with_timer_waiting (init interp_ready)) =
     [\<lparr>timer_id = 1, delay_ms = 50, status = Sleeping, must_cancel = False\<rparr>] \<and>
   callback_task (run stop_with_timer_waiting (init interp_ready)) =
     Some \<lparr>pc = In_acquire, loop_must_cancel = True\<rparr> \<and>
   trace (run (stop_with_timer_waiting @ [Resume_loop returns_true, Resume_timer 0])
            (init interp_ready)) =
     [Stdout (Msg ''Lua runtime stopped''),
      Put \<lparr>type = ''timer'', callback_id = 1, data = None\<rparr>, Release] \<and>
   callback_task (run (stop_with_timer_waiting @ [Resume_loop returns_true, Resume_timer 0])
                    (init interp_ready)) =
     Some \<lparr>pc = Finished, loop_must_cancel = True\<rparr> \<and>
   callback_queue (run (stop_with_timer_waiting @ [Resume_loop returns_true, Resume_timer 0])
                     (init interp_ready)) =
     [\<lparr>type = ''timer'', callback_id = 1, data = None\<rparr>]"
  by (simp add: stop_with_timer_waiting_def model_defs)

theorem stop_cancels_only_the_loop_witness:
  "callback_task sleeping_timer = Some \<lparr>pc = At_top, loop_must_cancel = False\<rparr> \<and>
   timer_tasks (stop sleeping_timer) 1 = Some 0 \<and>
   all_tasks (stop sleeping_timer) =
     [\<lparr>timer_id = 1, delay_ms = 10, status = Sleeping, must_cancel = False\<rparr>] \<and>
   callback_task (stop sleeping_timer) = Some \<lparr>pc = At_top, loop_must_cancel = True\<rparr> \<and>
   callback_task (run_timer_callbacks_loop returns_true (stop sleeping_timer)) =
     Some \<lparr>pc = Finished, loop_must_cancel = True\<rparr> \<and>
   trace (run_timer_callbacks_loop returns_true (stop sleeping_timer)) =
     [Stdout (Msg ''Lua runtime stopped'')]"
proof -
  have h: "callback_task sleeping_timer = Some \<lparr>pc = At_top, loop_must_cancel = False\<rparr>"
      "pc \<lparr>pc = At_top, loop_must_cancel = False\<rparr> \<noteq> Finished"
      "timer_tasks sleeping_timer 1 = Some 0" "trace sleeping_timer = []"
      "all_tasks sleeping_timer =
         [\<lparr>timer_id = 1, delay_ms = 10, status = Sleeping, must_cancel = False\<rparr>]"
    by (simp_all add: sleeping_timer_eq)
  show ?thesis
    using h stop_cancels_only_the_loop [of sleeping_timer
        "\<lparr>pc = At_top, loop_must_cancel = False\<rparr>" returns_true "[]" interp_ready]
    by simp
qed

section \<open>Submitting after the runtime was stopped\<close>

lemma queue_lua_callback_finished:
  assumes "callback_task s = Some t" and "pc t = Finished"
  shows "fst (queue_lua_callback True cid d s) = Inr ()"
    and "callback_task (snd (queue_lua_callback True cid d s)) =
           Some \<lparr>pc = At_top, loop_must_cancel = False\<rparr>"
    and "scheduled (snd (queue_lua_callback True cid d s)) =
           scheduled s @ [\<lparr>type = ''lua_callback'', callback_id = cid, data = d\<rparr>]"
    and "callback_queue (snd (queue_lua_callback True cid d s)) = callback_queue s"
    and "timer_semaphore (snd (queue_lua_callback True cid d s)) = timer_semaphore s"
    and "interpreter (snd (queue_lua_callback True cid d s)) = interpreter s"
    and "gets (trace (snd (queue_lua_callback True cid d s))) = gets (trace s)"
    and "entered (trace (snd (queue_lua_callback True cid d s))) = entered (trace s)"
  using assms
  by (simp_all add: queue_lua_callback_def Let_def ensure_callback_loop_running_def)

text \<open>
  C8, as the code has it. The runtime keeps no record of having been stopped. Once the
  cancelled loop task is done, a submission made on the event loop's thread raises
  nothing and has \<open>_ensure_callback_loop_running\<close> start a new dispatch loop:
  \<open>queue_lua_callback\<close> schedules its event and \<open>python_timer\<close> creates its timer as before
  the stop, and with nothing else waiting the submitted callback is enqueued, dequeued by
  the new loop and handed to the engine.
\<close>

theorem submission_after_stop_restarts_loop:
  assumes "callback_task s = Some t" and "pc t = Finished"
  shows "fst (queue_lua_callback True cid d s) = Inr () \<and>
         callback_task (snd (queue_lua_callback True cid d s)) =
           Some \<lparr>pc = At_top, loop_must_cancel = False\<rparr> \<and>
         scheduled (snd (queue_lua_callback True cid d s)) =
           scheduled s @ [\<lparr>type = ''lua_callback'', callback_id = cid, data = d\<rparr>] \<and>
         fst (python_timer True tid ms s) = Inr (length (all_tasks s)) \<and>
         callback_task (snd (python_timer True tid ms s)) =
           Some \<lparr>pc = At_top, loop_must_cancel = False\<rparr> \<and>
         timer_tasks (snd (python_timer True tid ms s)) tid = Some (length (all_tasks s)) \<and>
         (callback_queue s = [] \<and> scheduled s = [] \<and> timer_semaphore s = 0 \<longrightarrow>
            gets (trace (run [Queue_lua_callback cid d, Resume_queue_callback, Resume_loop r] s)) =
              gets (trace s) @ [\<lparr>type = ''lua_callback'', callback_id = cid, data = d\<rparr>] \<and>
            entered (trace (run [Queue_lua_callback cid d, Resume_queue_callback, Resume_loop r] s)) =
              entered (trace s) @ (if lua (interpreter s) = None then [] else [(cid, d)]))"
proof -
  note q = queue_lua_callback_finished [OF assms, of cid d]
  let ?cd = "\<lparr>type = ''lua_callback'', callback_id = cid, data = d\<rparr>"
  let ?t = "\<lparr>pc = At_top, loop_must_cancel = False\<rparr>"
  have timer: "fst (python_timer True tid ms s) = Inr (length (all_tasks s))"
      "callback_task (snd (python_timer True tid ms s)) = Some ?t"
      "timer_tasks (snd (python_timer True tid ms s)) tid = Some (length (all_tasks s))"
    using assms
    by (simp_all add: python_timer_unfold create_timer_def Let_def
          ensure_callback_loop_running_def)
  have last: "gets (trace (run [Queue_lua_callback cid d, Resume_queue_callback, Resume_loop r] s)) =
        gets (trace s) @ [?cd] \<and>
      entered (trace (run [Queue_lua_callback cid d, Resume_queue_callback, Resume_loop r] s)) =
        entered (trace s) @ (if lua (interpreter s) = None then [] else [(cid, d)])"
    if e: "callback_queue s = []" "scheduled s = []" "timer_semaphore s = 0"
  proof -
    let ?s1 = "snd (queue_lua_callback True cid d s)"
    let ?s2 = "queue_callback ?cd (?s1\<lparr>scheduled := []\<rparr>)"
    have s2: "step Resume_queue_callback ?s1 = ?s2"
      using q(3) e(2) by simp
    have h: "callback_task ?s2 = Some ?t" "pc ?t = At_top \<or> pc ?t = In_acquire"
        "\<not> loop_must_cancel ?t" "timer_semaphore ?s2 = length (callback_queue ?s2)"
        "callback_queue ?s2 = ?cd # []"
      using q(2,4,5) e by (simp_all add: queue_callback_def)
    have p: "gets (trace ?s2) = gets (trace s)" "entered (trace ?s2) = entered (trace s)"
        "interpreter ?s2 = interpreter s"
      using q(6,7,8) by (simp_all add: queue_callback_def)
    show ?thesis
      using loop_dispatches_head(4,5) [OF h, of r] p s2
      by (simp add: known_type_def callback_args_def)
  qed
  show ?thesis
    using q(1,2,3) timer last by blast
qed

definition stopped_then_submit :: "action list" where
  "stopped_then_submit =
     [Queue_lua_callback 5 None, Resume_loop returns_true, Resume_queue_callback,
      Resume_loop returns_true, Resume_loop returns_true,
      Stop, Resume_loop returns_true,
      Queue_lua_callback 7 (Some ''late''), Resume_loop returns_true, Resume_queue_callback,
      Resume_loop returns_true]"

theorem submission_after_stop_is_dispatched:
  "callback_task (run (take 7 stopped_then_submit) (init interp_ready)) =
     Some \<lparr>pc = Finished, loop_must_cancel = True\<rparr> \<and>
   trace (run (take 7 stopped_then_submit) (init interp_ready)) =
     [Put \<lparr>type = ''lua_callback'', callback_id = 5, data = None\<rparr>, Release, Acquire,
      Get \<lparr>type = ''lua_callback'', callback_id = 5, data = None\<rparr>,
      Lua_enter (Execute_callback 5 None), Lua_exit (Inr True),
      Stdout (Msg ''Lua runtime stopped'')] \<and>
   trace (run stopped_then_submit (init interp_ready)) =
     [Put \<lparr>type = ''lua_callback'', callback_id = 5, data = None\<rparr>, Release, Acquire,
      Get \<lparr>type = ''lua_callback'', callback_id = 5, data = None\<rparr>,
      Lua_enter (Execute_callback 5 None), Lua_exit (Inr True),
      Stdout (Msg ''Lua runtime stopped''),
      Put \<lparr>type = ''lua_callback'', callback_id = 7, data = Some ''late''\<rparr>, Release, Acquire,
      Get \<lparr>type = ''lua_callback'', callback_id = 7, data = Some ''late''\<rparr>,
      Lua_enter (Execute_callback 7 (Some ''late'')), Lua_exit (Inr True)] \<and>
   callback_task (run stopped_then_submit (init interp_ready)) =
     Some \<lparr>pc = At_top, loop_must_cancel = False\<rparr>"
  by (simp add: stopped_then_submit_def model_defs)

definition stopped :: LuaAsyncRuntime where
  "stopped = run (take 7 stopped_then_submit) (init interp_ready)"

lemma stopped_fields:
  "callback_task stopped = Some \<lparr>pc = Finished, loop_must_cancel = True\<rparr>"
  "callback_queue stopped = []" "scheduled stopped = []" "timer_semaphore stopped = 0"
  "all_tasks stopped = []" "interpreter stopped = interp_ready"
  "trace stopped =
     [Put \<lparr>type = ''lua_callback'', callback_id = 5, data = None\<rparr>, Release, Acquire,
      Get \<lparr>type = ''lua_callback'', callback_id = 5, data = None\<rparr>,
      Lua_enter (Execute_callback 5 None), Lua_exit (Inr True),
      Stdout (Msg ''Lua runtime stopped'')]"
  by (simp_all add: stopped_def stopped_then_submit_def)
     (simp_all add: model_defs)

theorem submission_after_stop_restarts_loop_witness:
  "callback_task stopped = Some \<lparr>pc = Finished, loop_must_cancel = True\<rparr> \<and>
   callback_queue stopped = [] \<and> scheduled stopped = [] \<and> timer_semaphore stopped = 0 \<and>
   fst (queue_lua_callback True 7 (Some ''late'') stopped) = Inr () \<and>
   callback_task (snd (queue_lua_callback True 7 (Some ''late'') stopped)) =
     Some \<lparr>pc = At_top, loop_must_cancel = False\<rparr> \<and>
   fst (python_timer True 9 100 stopped) = Inr 0 \<and>
   timer_tasks (snd (python_timer True 9 100 stopped)) 9 = Some 0 \<and>
   gets (trace (run [Queue_lua_callback 7 (Some ''late''), Resume_queue_callback,
                      Resume_loop returns_true] stopped)) =
     [\<lparr>type = ''lua_callback'', callback_id = 5, data = None\<rparr>,
      \<lparr>type = ''lua_callback'', callback_id = 7, data = Some ''late''\<rparr>] \<and>
   entered (trace (run [Queue_lua_callback 7 (Some ''late''), Resume_queue_callback,
                         Resume_loop returns_true] stopped)) =
     [(5, None), (7, Some ''late'')]"
proof -
  have h: "callback_task stopped = Some \<lparr>pc = Finished, loop_must_cancel = True\<rparr>"
      "pc \<lparr>pc = Finished, loop_must_cancel = True\<rparr> = Finished"
    by (simp_all add: stopped_fields)
  have k: "callback_queue stopped = []" "scheduled stopped = []" "timer_semaphore stopped = 0"
      "all_tasks stopped = []" "lua (interpreter stopped) = Some LuaRuntime"
      "gets (trace stopped) = [\<lparr>type = ''lua_callback'', callback_id = 5, data = None\<rparr>]"
      "entered (trace stopped) = [(5, None)]"
    by (simp_all add: stopped_fields)
  show ?thesis
    using h(1) k submission_after_stop_restarts_loop [OF h, of 7 "Some ''late''" 9 100 returns_true]
    by (simp del: run.simps step.simps)
qed

section \<open>The race between expiry and cancellation\<close>

text \<open>
  The two outcomes of a timer, counted on the trace: its expiry enqueued the \<open>timer\<close> event
  of the identifier, or a \<open>python_cancel_timer\<close> for the identifier returned \<open>True\<close>. The
  tasks created under an identifier are those of \<open>all_tasks\<close> that carry it.
\<close>

definition expiry_dispatches :: "int \<Rightarrow> event list \<Rightarrow> nat" where
  "expiry_dispatches tid tr =
     length (filter (\<lambda>e. e = Put \<lparr>type = ''timer'', callback_id = tid, data = None\<rparr>) tr)"

definition cancel_successes :: "int \<Rightarrow> event list \<Rightarrow> nat" where
  "cancel_successes tid tr = length (filter (\<lambda>e. e = Cancel_returned tid True) tr)"

definition outcomes :: "int \<Rightarrow> LuaAsyncRuntime \<Rightarrow> nat" where
  "outcomes tid s = expiry_dispatches tid (trace s) + cancel_successes tid (trace s)"

definition handles_of :: "int \<Rightarrow> timer_task_state list \<Rightarrow> nat list" where
  "handles_of tid ts = filter (\<lambda>k. timer_id (ts ! k) = tid) [0..<length ts]"

definition pending :: "nat \<Rightarrow> LuaAsyncRuntime \<Rightarrow> bool" where
  "pending h s = (status (all_tasks s ! h) \<noteq> Done \<and> \<not> must_cancel (all_tasks s ! h))"

lemma expiry_dispatches_simps [simp]:
  "expiry_dispatches tid [] = 0"
  "expiry_dispatches tid (xs @ ys) = expiry_dispatches tid xs + expiry_dispatches tid ys"
  "expiry_dispatches tid (e # xs) =
     (if e = Put \<lparr>type = ''timer'', callback_id = tid, data = None\<rparr> then 1 else 0) +
     expiry_dispatches tid xs"
  by (simp_all add: expiry_dispatches_def)

lemma cancel_successes_simps [simp]:
  "cancel_successes tid [] = 0"
  "cancel_successes tid (xs @ ys) = cancel_successes tid xs + cancel_successes tid ys"
  "cancel_successes tid (e # xs) =
     (if e = Cancel_returned tid True then 1 else 0) + cancel_successes tid xs"
  by (simp_all add: cancel_successes_def)


lemma handles_of_update:
  "timer_id t = timer_id (ts ! k) \<Longrightarrow> handles_of tid (ts[k := t]) = handles_of tid ts"
proof -
  assume a: "timer_id t = timer_id (ts ! k)"
  have b: "timer_id (ts[k := t] ! i) = timer_id (ts ! i)" if "i < length ts" for i
    using a that by (cases "i = k") simp_all
  have "filter (\<lambda>i. timer_id (ts[k := t] ! i) = tid) [0..<length ts] =
        filter (\<lambda>i. timer_id (ts ! i) = tid) [0..<length ts]"
    by (rule filter_cong) (simp_all add: b)
  then show ?thesis by (simp add: handles_of_def)
qed

lemma handles_of_status [simp]:
  "handles_of tid (ts[k := (ts ! k)\<lparr>status := st\<rparr>]) = handles_of tid ts"
  "handles_of tid (ts[k := (ts ! k)\<lparr>must_cancel := b\<rparr>]) = handles_of tid ts"
  by (simp_all add: handles_of_update)




definition timer_inv :: "int \<Rightarrow> LuaAsyncRuntime \<Rightarrow> bool" where
  "timer_inv tid s =
     (outcomes tid s + (if timer_tasks s tid = None then 0 else 1)
        \<le> length (handles_of tid (all_tasks s)) \<and>
      list_all (\<lambda>cd. type cd = ''lua_callback'') (scheduled s) \<and>
      (\<forall>j k. timer_tasks s j = Some k \<longrightarrow> k < length (all_tasks s) \<and> timer_id (all_tasks s ! k) = j) \<and>
      (\<forall>h. handles_of tid (all_tasks s) = [h] \<longrightarrow>
         timer_tasks s tid = (if pending h s then Some h else None) \<and>
         cancel_successes tid (trace s) = (if must_cancel (all_tasks s ! h) then 1 else 0) \<and>
         expiry_dispatches tid (trace s) =
           (if status (all_tasks s ! h) = Done \<and> \<not> must_cancel (all_tasks s ! h) then 1 else 0)))"

lemma timer_inv_cong:
  assumes "timer_tasks s' = timer_tasks s" and "all_tasks s' = all_tasks s"
    and "scheduled s' = scheduled s"
    and "expiry_dispatches tid (trace s') = expiry_dispatches tid (trace s)"
    and "cancel_successes tid (trace s') = cancel_successes tid (trace s)"
  shows "timer_inv tid s' = timer_inv tid s"
  using assms by (simp add: timer_inv_def outcomes_def pending_def)

lemma timer_inv_frame [simp]:
  "timer_inv tid (debug_print m s) = timer_inv tid s"
  "timer_inv tid (py_print m s) = timer_inv tid s"
  "timer_inv tid (acquire s) = timer_inv tid s"
  "timer_inv tid (release s) = timer_inv tid s"
  "timer_inv tid (set_pc p s) = timer_inv tid s"
  "timer_inv tid (emit (Get cd) s) = timer_inv tid s"
  "timer_inv tid (emit (Lua_enter c) s) = timer_inv tid s"
  "timer_inv tid (emit (Lua_exit res) s) = timer_inv tid s"
  "timer_inv tid (s\<lparr>task_states := ts\<rparr>) = timer_inv tid s"
  "timer_inv tid (s\<lparr>callback_queue := q\<rparr>) = timer_inv tid s"
  "timer_inv tid (s\<lparr>callback_task := ct\<rparr>) = timer_inv tid s"
  by (rule timer_inv_cong; simp)+



























text \<open>
  Remark on identifiers used more than once. The bound on the count of outcomes holds
  whatever the reuse. That a waiting timer is live, however, rests on its identifier
  being its own: when a timer is created under an identifier whose earlier timer was
  cancelled while sleeping and whose cancelled task has not been resumed yet, the
  \<open>finally\<close> of that task deletes the entry of the new timer. Below, a cancellation of
  the second timer returns \<open>False\<close> and its expiry dispatches nothing.
\<close>

definition reuse_after_cancel :: "action list" where
  "reuse_after_cancel =
     [Call (pythonTimer 1 50), Resume_timer 0, Call (pythonCancelTimer 1),
      Call (pythonTimer 1 50), Resume_timer 0, Resume_timer 1,
      Call (pythonCancelTimer 1), Resume_timer 1]"

lemma reused_identifier_loses_its_entry:
  "trace (run reuse_after_cancel (init interp_ready)) =
     [Cancel_returned 1 True, Cancel_returned 1 False] \<and>
   all_tasks (run reuse_after_cancel (init interp_ready)) =
     [\<lparr>timer_id = 1, delay_ms = 50, status = Done, must_cancel = True\<rparr>,
      \<lparr>timer_id = 1, delay_ms = 50, status = Done, must_cancel = False\<rparr>] \<and>
   callback_queue (run reuse_after_cancel (init interp_ready)) = []"
  by (simp add: reuse_after_cancel_def model_defs)

end
